theory Spec2Isabelle
  imports Complex_Main
begin

section \<open>Numeric helpers of the avatar engine\<close>

text \<open>
  The engine (hook \<open>useAvatarEngine\<close>) computes on JavaScript numbers. They are modelled
  as \<^typ>\<open>real\<close>: every claim below is about ordering, clamping and bookkeeping of
  offsets, none about rounding.
\<close>

record EmotionState =
  happy :: real
  sad :: real
  angry :: real
  surprised :: real
  neutral :: real

definition DEFAULT_EMOTIONS :: EmotionState where
  "DEFAULT_EMOTIONS =
     \<lparr>happy = 4 / 10, sad = 1 / 10, angry = 1 / 10, surprised = 2 / 10, neutral = 8 / 10\<rparr>"

text \<open>\<^verbatim>\<open>const clamp01 = (value) => Math.min(1, Math.max(0, value))\<close>\<close>

definition clamp01 :: "real \<Rightarrow> real" where
  "clamp01 v = min 1 (max 0 v)"

text \<open>
  \<^verbatim>\<open>smoothStep(value, smoothing) = value < 0 ? 0 : value > 1 ? 1 :
      value * value * (3 - 2 * value) * smoothing + value * (1 - smoothing)\<close>
\<close>

definition smoothStep :: "real \<Rightarrow> real \<Rightarrow> real" where
  "smoothStep v smoothing =
     (if v < 0 then 0
      else if v > 1 then 1
      else v * v * (3 - 2 * v) * smoothing + v * (1 - smoothing))"

definition computeEmotionBlend :: "EmotionState \<Rightarrow> real \<Rightarrow> EmotionState" where
  "computeEmotionBlend emotion e =
     \<lparr>happy = clamp01 (happy emotion * (7 / 10) + e * (2 / 10) + neutral emotion * (1 / 10)),
      sad = clamp01 (sad emotion * (7 / 10) + (1 - e) * (2 / 10) + neutral emotion * (1 / 10)),
      angry = clamp01 (angry emotion * (6 / 10) + e * (25 / 100)),
      surprised = clamp01 (surprised emotion * (6 / 10) + e * (35 / 100)),
      neutral = clamp01 (neutral emotion * (4 / 10) + (1 - e) * (2 / 10))\<rparr>"

text \<open>An EmotionVector of the data model: five components, each in the unit interval.\<close>

definition validEmotion :: "EmotionState \<Rightarrow> bool" where
  "validEmotion m \<longleftrightarrow>
     0 \<le> happy m \<and> happy m \<le> 1 \<and> 0 \<le> sad m \<and> sad m \<le> 1 \<and>
     0 \<le> angry m \<and> angry m \<le> 1 \<and> 0 \<le> surprised m \<and> surprised m \<le> 1 \<and>
     0 \<le> neutral m \<and> neutral m \<le> 1"

subsection \<open>Feature extraction inside the animation loop\<close>

text \<open>
  The loop sums the squares of the analyser window, takes the root of the mean, updates
  the decaying peak and divides:
  \<^verbatim>\<open>
  let sum = 0;
  for (let i = 0; i < dataArray.length; i++) { const val = dataArray[i]; sum += val * val; }
  const rms = Math.sqrt(sum / dataArray.length);
  peakEnergyRef.current = Math.max(peakEnergyRef.current * 0.995, rms);
  const normalizedEnergy = peakEnergyRef.current > 0 ? rms / peakEnergyRef.current : 0;
  \<close>
\<close>

definition decayFactor :: real where
  "decayFactor = 995 / 1000"

fun sumSquares :: "real list \<Rightarrow> real \<Rightarrow> real" where
  "sumSquares [] acc = acc"
| "sumSquares (val # rest) acc = sumSquares rest (acc + val * val)"

definition rmsOf :: "real list \<Rightarrow> real" where
  "rmsOf dataArray = sqrt (sumSquares dataArray 0 / real (length dataArray))"

definition updatePeak :: "real \<Rightarrow> real \<Rightarrow> real" where
  "updatePeak peak rms = max (peak * decayFactor) rms"

definition normalizedEnergyOf :: "real \<Rightarrow> real \<Rightarrow> real" where
  "normalizedEnergyOf peak rms = (if peak > 0 then rms / peak else 0)"

section \<open>The engine: React state, refs and the audio graph\<close>

text \<open>
  A decoded \<open>AudioBuffer\<close>: the engine reads only its duration; \<open>bufferId\<close> stands for
  its samples, so that two buffers can be told apart.
\<close>

record AudioBuffer =
  bufferId :: nat
  duration :: real

text \<open>
  Nodes of the Web Audio graph. Buffer source nodes are single-use and numbered in the
  order of \<open>createBufferSource\<close>; the other nodes are created once by
  \<open>ensureAudioContext\<close>. \<open>SpeakerN\<close> is \<open>audioContext.destination\<close>, \<open>CaptureN\<close> the
  \<open>MediaStreamAudioDestinationNode\<close>.
\<close>

datatype node = SourceN nat | AnalyserN | GainN | SpeakerN | CaptureN

text \<open>
  Every \<open>throw\<close> of the hook, and the rejections of its external collaborators
  (\<open>file.arrayBuffer\<close>, \<open>fetch\<close>, \<open>decodeAudioData\<close>, \<open>extractAudioFromVideo\<close>,
  \<open>convertWebMToMp4\<close>, \<open>MediaRecorder\<close>, \<open>AudioContext.resume\<close>).
\<close>

datatype error =
    NoWindow
  | ResumeRejected
  | LoadAudioFirst
  | TextRequired
  | SpeechRequestFailed
  | CanvasNotReady
  | NoAudioForExport
  | AudioRoutingUnavailable
  | FormatUnsupported
  | RecorderFault
  | FileReadError
  | NetworkError
  | DecodeError
  | ExtractionError
  | TranscodeError

datatype backend = BackendReady | BackendNoWindow | BackendResumeRejected

datatype ExportFormat = Webm | Mp4

type_synonym bytes = "nat list"

record Animation =
  mouthOpen :: real
  blink :: real
  headRotation :: "real \<times> real \<times> real"
  eyeDirection :: "real \<times> real"
  handWave :: real
  energy :: real
  playbackProgress :: real

record Engine =
  emotions :: EmotionState
  gestureSeed :: real
  isPlaying :: bool
  isLoadingAudio :: bool
  isGeneratingSpeech :: bool
  isProcessingVideo :: bool
  isExporting :: bool
  audioDuration :: real
  audioName :: "string option"
  statusMessage :: "string option"
  volume :: real
  hasAudio :: bool
  anim :: Animation
  audioBufferRef :: "AudioBuffer option"
  audioContextRef :: bool
  analyserRef :: bool
  gainRef :: "real option"
  destinationRef :: bool
  sourceNodeRef :: "nat option"
  dataArrayRef :: "nat option"
  startTimeRef :: real
  pauseOffsetRef :: real
  ignoreEndRef :: bool
  peakEnergyRef :: real
  connections :: "(node \<times> node) list"
  nodesCreated :: nat

type_synonym 'a outcome = "(error + 'a) \<times> Engine"

definition idleAnimation :: Animation where
  "idleAnimation =
     \<lparr>mouthOpen = 0, blink = 0, headRotation = (0, 0, 0), eyeDirection = (0, 0),
      handWave = 0, energy = 0, playbackProgress = 0\<rparr>"

text \<open>
  The state of a freshly mounted hook (the initial values of \<open>useState\<close>/\<open>useRef\<close>).
  \<open>hasAudio\<close> is the \<open>useState\<close> flag that \<open>setHasAudio\<close> writes.
\<close>

definition initialEngine :: "real \<Rightarrow> Engine" where
  "initialEngine seed =
     \<lparr>emotions = DEFAULT_EMOTIONS, gestureSeed = seed, isPlaying = False,
      isLoadingAudio = False, isGeneratingSpeech = False, isProcessingVideo = False,
      isExporting = False, audioDuration = 0, audioName = None, statusMessage = None,
      volume = 1, hasAudio = False, anim = idleAnimation,
      audioBufferRef = None, audioContextRef = False, analyserRef = False, gainRef = None,
      destinationRef = False, sourceNodeRef = None, dataArrayRef = None,
      startTimeRef = 0, pauseOffsetRef = 0, ignoreEndRef = False,
      peakEnergyRef = 1 / 10000, connections = [], nodesCreated = 0\<rparr>"

subsection \<open>Audio graph\<close>

text \<open>\<open>a.connect(b)\<close>: connecting a pair that is already connected changes nothing.\<close>

definition connect :: "node \<times> node \<Rightarrow> (node \<times> node) list \<Rightarrow> (node \<times> node) list" where
  "connect e es = List.insert e es"

text \<open>\<open>a.disconnect()\<close> removes every outgoing connection of \<open>a\<close>.\<close>

definition disconnect :: "node \<Rightarrow> (node \<times> node) list \<Rightarrow> (node \<times> node) list" where
  "disconnect a es = filter (\<lambda>e. fst e \<noteq> a) es"

text \<open>
  The signal a node emits at one sample instant, given what each buffer source emits
  (\<open>src\<close>) and the value of the gain parameter: a source emits its sample, the gain node
  multiplies the sum of its inputs by the gain, every other node passes the sum of its
  inputs through. The first argument bounds the length of the paths followed.
\<close>

fun nodeOutput :: "nat \<Rightarrow> (node \<times> node) list \<Rightarrow> real \<Rightarrow> (nat \<Rightarrow> real) \<Rightarrow> node \<Rightarrow> real" where
  "nodeOutput 0 es g src n = 0"
| "nodeOutput (Suc k) es g src n =
     (case n of
        SourceN i \<Rightarrow> src i
      | GainN \<Rightarrow> g * sum_list (map (\<lambda>e. nodeOutput k es g src (fst e)) (filter (\<lambda>e. snd e = n) es))
      | _ \<Rightarrow> sum_list (map (\<lambda>e. nodeOutput k es g src (fst e)) (filter (\<lambda>e. snd e = n) es)))"

text \<open>
  \<^verbatim>\<open>
  if (!audioContextRef.current) audioContextRef.current = new AudioContext();
  if (audioContext.state === 'suspended') await audioContext.resume();
  if (!gainRef.current) { gain.gain.value = volume; gainRef.current = gain; }
  if (!destinationRef.current) destinationRef.current = createMediaStreamDestination();
  if (!analyserRef.current) { ...; dataArrayRef.current = new Float32Array(frequencyBinCount);
                              analyser.connect(gainRef.current); }
  if (gainRef.current && destinationRef.current && gainRef.current.numberOfOutputs > 0) {
    gainRef.current.connect(audioContext.destination); gainRef.current.connect(destinationRef.current); }
  gainRef.current!.gain.value = volume;
  \<close>
  The platform's answer (no \<open>window\<close>, a rejected \<open>resume\<close>, or ready) is the argument
  \<open>be\<close>. \<open>fftSize\<close> is 2048, so the data array has 1024 entries; a gain node has one
  output.
\<close>

definition ensureAudioContext :: "backend \<Rightarrow> Engine \<Rightarrow> unit outcome" where
  "ensureAudioContext be s =
     (if be = BackendNoWindow then (Inl NoWindow, s)
      else
        let s1 = s\<lparr>audioContextRef := True\<rparr> in
        if be = BackendResumeRejected then (Inl ResumeRejected, s1)
        else
          let s2 = (case gainRef s1 of None \<Rightarrow> s1\<lparr>gainRef := Some (volume s1)\<rparr> | Some _ \<Rightarrow> s1);
              s3 = (if \<not> destinationRef s2 then s2\<lparr>destinationRef := True\<rparr> else s2);
              s4 = (if \<not> analyserRef s3
                    then s3\<lparr>analyserRef := True, dataArrayRef := Some 1024,
                            connections := connect (AnalyserN, GainN) (connections s3)\<rparr>
                    else s3);
              s5 = (if gainRef s4 \<noteq> None \<and> destinationRef s4
                    then s4\<lparr>connections :=
                            connect (GainN, CaptureN) (connect (GainN, SpeakerN) (connections s4))\<rparr>
                    else s4)
          in (Inr (), s5\<lparr>gainRef := Some (volume s5)\<rparr>))"

text \<open>
  \<^verbatim>\<open>
  if (sourceNodeRef.current) { try { stop() } catch {}; disconnect(); sourceNodeRef.current = null; }
  \<close>
\<close>

definition stopCurrentSource :: "Engine \<Rightarrow> Engine" where
  "stopCurrentSource s =
     (case sourceNodeRef s of
        None \<Rightarrow> s
      | Some n \<Rightarrow> s\<lparr>connections := disconnect (SourceN n) (connections s), sourceNodeRef := None\<rparr>)"

text \<open>
  \<open>getCurrentOffset\<close>; \<open>now\<close> is \<open>audioContext.currentTime\<close> at the call.
\<close>

definition getCurrentOffset :: "real \<Rightarrow> Engine \<Rightarrow> real" where
  "getCurrentOffset now s =
     (case audioBufferRef s of
        None \<Rightarrow> 0
      | Some buf \<Rightarrow>
          if isPlaying s \<and> audioContextRef s
          then min (max (now - startTimeRef s) 0) (duration buf)
          else min (pauseOffsetRef s) (duration buf))"

text \<open>
  The \<open>onended\<close> handler that \<open>schedulePlayback\<close> installs on the node \<open>source\<close>:
  \<^verbatim>\<open>
  if (!ignoreEndRef.current && sourceNodeRef.current === source) {
    sourceNodeRef.current = null; pauseOffsetRef.current = 0;
    if (markPlaying) setIsPlaying(false);
  }
  resolve();
  \<close>
  \<open>resolve\<close> settles the \<open>done\<close> promise of that node and touches no state of the engine.
\<close>

definition onended :: "nat \<Rightarrow> bool \<Rightarrow> Engine \<Rightarrow> Engine" where
  "onended source markPlaying s =
     (if \<not> ignoreEndRef s \<and> sourceNodeRef s = Some source
      then
        let s1 = s\<lparr>sourceNodeRef := None, pauseOffsetRef := 0\<rparr>
        in (if markPlaying then s1\<lparr>isPlaying := False\<rparr> else s1)
      else s)"

text \<open>
  \<open>schedulePlayback(offset, markPlaying)\<close>; \<open>now\<close> is \<open>audioContext.currentTime\<close> after
  the \<open>await\<close>. The result is the new source node (\<open>null\<close> when no buffer is loaded).
\<close>

definition schedulePlayback ::
  "backend \<Rightarrow> real \<Rightarrow> real \<Rightarrow> bool \<Rightarrow> Engine \<Rightarrow> (nat option) outcome" where
  "schedulePlayback be now offset markPlaying s =
     (case audioBufferRef s of
        None \<Rightarrow> (Inr None, s)
      | Some buf \<Rightarrow>
          (case ensureAudioContext be s of
             (Inl e, s1) \<Rightarrow> (Inl e, s1)
           | (Inr _, s1) \<Rightarrow>
               let startOffset = min (max offset 0) (max (duration buf - 1 / 1000) 0);
                   s2 = (stopCurrentSource s1)\<lparr>ignoreEndRef := False\<rparr>;
                   source = nodesCreated s2;
                   s3 = s2\<lparr>nodesCreated := Suc source,
                           connections := connect (SourceN source, AnalyserN) (connections s2)\<rparr>;
                   s4 = s3\<lparr>sourceNodeRef := Some source, startTimeRef := now - startOffset,
                           pauseOffsetRef := startOffset\<rparr>
               in (Inr (Some source), if markPlaying then s4\<lparr>isPlaying := True\<rparr> else s4)))"

text \<open>
  \<open>play\<close>: \<open>now0\<close> is the clock when the offset is read, \<open>now1\<close> the clock after the
  \<open>await\<close> inside \<open>schedulePlayback\<close>.
\<close>

definition play :: "backend \<Rightarrow> real \<Rightarrow> real \<Rightarrow> Engine \<Rightarrow> unit outcome" where
  "play be now0 now1 s =
     (case audioBufferRef s of
        None \<Rightarrow> (Inl LoadAudioFirst, s)
      | Some _ \<Rightarrow>
          (case schedulePlayback be now1 (getCurrentOffset now0 s) True s of
             (Inl e, s1) \<Rightarrow> (Inl e, s1)
           | (Inr _, s1) \<Rightarrow> (Inr (), s1)))"

definition pause :: "real \<Rightarrow> Engine \<Rightarrow> Engine" where
  "pause now s =
     (if audioBufferRef s = None \<or> \<not> audioContextRef s \<or> \<not> isPlaying s then s
      else
        let offset = getCurrentOffset now s;
            s1 = s\<lparr>pauseOffsetRef := offset, ignoreEndRef := True\<rparr>
        in (stopCurrentSource s1)\<lparr>isPlaying := False\<rparr>)"

definition resetPlayback :: "Engine \<Rightarrow> Engine" where
  "resetPlayback s =
     (stopCurrentSource (s\<lparr>pauseOffsetRef := 0, startTimeRef := 0\<rparr>))
       \<lparr>isPlaying := False, anim := idleAnimation\<rparr>"

subsection \<open>Loading audio\<close>

text \<open>
  \<open>decodeAudioData(arrayBuffer)\<close>. The browser's decoder is the argument \<open>decode\<close>: it
  answers with a buffer or rejects.
  \<^verbatim>\<open>
  const audioContext = await ensureAudioContext();
  const decoded = await audioContext.decodeAudioData(arrayBuffer.slice(0));
  audioBufferRef.current = decoded; setHasAudio(true); setAudioDuration(decoded.duration);
  resetPlayback();
  \<close>
\<close>

definition decodeAudioData ::
  "backend \<Rightarrow> (bytes \<Rightarrow> error + AudioBuffer) \<Rightarrow> bytes \<Rightarrow> Engine \<Rightarrow> unit outcome" where
  "decodeAudioData be decode arrayBuffer s =
     (case ensureAudioContext be s of
        (Inl e, s1) \<Rightarrow> (Inl e, s1)
      | (Inr _, s1) \<Rightarrow>
          (case decode arrayBuffer of
             Inl e \<Rightarrow> (Inl e, s1)
           | Inr decoded \<Rightarrow>
               (Inr (), resetPlayback (s1\<lparr>audioBufferRef := Some decoded, hasAudio := True,
                                         audioDuration := duration decoded\<rparr>))))"

text \<open>A \<open>File\<close>: its name and what \<open>file.arrayBuffer()\<close> settles to.\<close>

record File =
  fileName :: string
  arrayBuffer :: "error + bytes"

definition loadAudioFromFile ::
  "backend \<Rightarrow> (bytes \<Rightarrow> error + AudioBuffer) \<Rightarrow> File \<Rightarrow> Engine \<Rightarrow> unit outcome" where
  "loadAudioFromFile be decode file s =
     (let s0 = s\<lparr>isLoadingAudio := True,
                 statusMessage := Some (''Decoding '' @ fileName file @ ''...'')\<rparr>;
          s1 = s0\<lparr>hasAudio := False\<rparr>;
          (r, s2) =
            (case arrayBuffer file of
               Inl e \<Rightarrow> (Inl e, s1)
             | Inr buffer \<Rightarrow>
                 (case decodeAudioData be decode buffer s1 of
                    (Inl e, s') \<Rightarrow> (Inl e, s')
                  | (Inr _, s') \<Rightarrow>
                      (Inr (), s'\<lparr>audioName := Some (fileName file),
                                  statusMessage := Some (''Loaded '' @ fileName file)\<rparr>)));
          s3 = (case r of
                  Inl e \<Rightarrow> s2\<lparr>statusMessage := Some ''Unable to decode audio file.'',
                              hasAudio := False\<rparr>
                | Inr _ \<Rightarrow> s2)
      in (r, s3\<lparr>isLoadingAudio := False\<rparr>))"

text \<open>
  The text to synthesize is a JavaScript string: a sequence of UTF-16 code units.
  \<open>text.trim()\<close> strips the white space and line terminators of ECMAScript from both
  ends, so it is empty exactly when every code unit is one of them: tab, line feed,
  vertical tab, form feed, carriage return, space, no-break space (U+00A0), the other
  space separators of Unicode (U+1680, U+2000 to U+200A, U+202F, U+205F, U+3000), the
  line and paragraph separators (U+2028, U+2029) and the byte order mark (U+FEFF). All of
  them are single code units. File names, voices and status messages are only copied,
  never inspected, and stay byte strings.
\<close>

type_synonym jsString = "nat list"

definition isWhiteSpace :: "nat \<Rightarrow> bool" where
  "isWhiteSpace c \<longleftrightarrow>
     c \<in> set [0x09, 0x0A, 0x0B, 0x0C, 0x0D, 0x20, 0xA0, 0x1680,
               0x2000, 0x2001, 0x2002, 0x2003, 0x2004, 0x2005, 0x2006, 0x2007, 0x2008,
               0x2009, 0x200A, 0x2028, 0x2029, 0x202F, 0x205F, 0x3000, 0xFEFF]"

definition trimIsEmpty :: "jsString \<Rightarrow> bool" where
  "trimIsEmpty text \<longleftrightarrow> list_all isWhiteSpace text"

text \<open>The answer of \<open>fetch('/api/tts')\<close>: \<open>response.ok\<close> and what \<open>response.arrayBuffer()\<close> settles to.\<close>

record Response =
  ok :: bool
  body :: "error + bytes"

text \<open>The separator of the audio names, U+2022, in UTF-8.\<close>

definition bullet :: string where
  "bullet = [CHR 0xE2, CHR 0x80, CHR 0xA2]"

definition generateSpeechFromText ::
  "backend \<Rightarrow> (bytes \<Rightarrow> error + AudioBuffer) \<Rightarrow> jsString \<Rightarrow> string \<Rightarrow> (error + Response) \<Rightarrow>
   Engine \<Rightarrow> unit outcome" where
  "generateSpeechFromText be decode text voice fetched s =
     (if trimIsEmpty text then (Inl TextRequired, s)
      else
        let s0 = s\<lparr>isGeneratingSpeech := True, statusMessage := Some ''Synthesizing speech...''\<rparr>;
            s1 = s0\<lparr>hasAudio := False\<rparr>;
            (r, s2) =
              (case fetched of
                 Inl e \<Rightarrow> (Inl e, s1)
               | Inr response \<Rightarrow>
                   if \<not> ok response then (Inl SpeechRequestFailed, s1)
                   else
                     (case body response of
                        Inl e \<Rightarrow> (Inl e, s1)
                      | Inr buffer \<Rightarrow>
                          (case decodeAudioData be decode buffer s1 of
                             (Inl e, s') \<Rightarrow> (Inl e, s')
                           | (Inr _, s') \<Rightarrow>
                               (Inr (), s'\<lparr>audioName := Some (''TTS '' @ bullet @ '' '' @ voice),
                                           statusMessage := Some ''Speech generated successfully.''\<rparr>))));
            s3 = (case r of
                    Inl e \<Rightarrow> s2\<lparr>statusMessage := Some ''Text-to-speech failed.'', hasAudio := False\<rparr>
                  | Inr _ \<Rightarrow> s2)
        in (r, s3\<lparr>isGeneratingSpeech := False\<rparr>))"

text \<open>
  \<open>loadAudioFromVideo(file)\<close>; \<open>extracted\<close> is what \<open>extractAudioFromVideo(file)\<close> (module
  \<open>lib/ffmpeg\<close>, an external collaborator) settles to.
\<close>

definition loadAudioFromVideo ::
  "backend \<Rightarrow> (bytes \<Rightarrow> error + AudioBuffer) \<Rightarrow> File \<Rightarrow> (error + bytes) \<Rightarrow> Engine \<Rightarrow> unit outcome" where
  "loadAudioFromVideo be decode file extracted s =
     (let s0 = s\<lparr>isProcessingVideo := True,
                 statusMessage := Some (''Extracting audio from '' @ fileName file @ ''...'')\<rparr>;
          s1 = s0\<lparr>hasAudio := False\<rparr>;
          (r, s2) =
            (case extracted of
               Inl e \<Rightarrow> (Inl e, s1)
             | Inr wavBuffer \<Rightarrow>
                 (case decodeAudioData be decode wavBuffer s1 of
                    (Inl e, s') \<Rightarrow> (Inl e, s')
                  | (Inr _, s') \<Rightarrow>
                      (Inr (), s'\<lparr>audioName := Some (fileName file @ '' '' @ bullet @ '' audio track''),
                                  statusMessage := Some ''Video audio extracted.''\<rparr>)));
          s3 = (case r of
                  Inl e \<Rightarrow> s2\<lparr>statusMessage := Some ''Unable to extract audio from video.'',
                              hasAudio := False\<rparr>
                | Inr _ \<Rightarrow> s2)
      in (r, s3\<lparr>isProcessingVideo := False\<rparr>))"

subsection \<open>Volume\<close>

text \<open>
  \<^verbatim>\<open>
  const clamped = clamp01(value); setVolume(clamped);
  if (gainRef.current) gainRef.current.gain.value = clamped;
  \<close>
\<close>

definition updateVolume :: "real \<Rightarrow> Engine \<Rightarrow> Engine" where
  "updateVolume v s =
     (let clamped = clamp01 v;
          s1 = s\<lparr>volume := clamped\<rparr>
      in (case gainRef s1 of None \<Rightarrow> s1 | Some _ \<Rightarrow> s1\<lparr>gainRef := Some clamped\<rparr>))"

subsection \<open>The animation loop\<close>

text \<open>
  \<open>analyser.getFloatTimeDomainData(dataArray)\<close> fills the array with the signal at the
  analyser. \<open>window\<close> gives, for each sample instant of the window, what every buffer
  source emits; the graph decides what of it reaches the analyser.
\<close>

definition gainValue :: "Engine \<Rightarrow> real" where
  "gainValue s = (case gainRef s of None \<Rightarrow> 0 | Some g \<Rightarrow> g)"

definition signalAt :: "Engine \<Rightarrow> (nat \<Rightarrow> real) \<Rightarrow> node \<Rightarrow> real" where
  "signalAt s src n = nodeOutput (Suc (length (connections s))) (connections s) (gainValue s) src n"

definition getFloatTimeDomainData :: "Engine \<Rightarrow> (nat \<Rightarrow> real) list \<Rightarrow> real list" where
  "getFloatTimeDomainData s window = map (\<lambda>src. signalAt s src AnalyserN) window"

text \<open>
  The animation values of one frame, from the normalized energy and the raw progress of
  the frame, the wall clock \<open>performance.now()\<close>, the gesture seed, the emotions and
  the previous values (the arguments of the functional \<open>setState\<close> updates):
  \<^verbatim>\<open>
  const smoothedMouth = smoothStep(normalizedEnergy * 1.8, 0.4);
  const newEnergy = clamp01(normalizedEnergy);
  setMouthOpen((prev) => prev * 0.8 + smoothedMouth * 0.2);
  setEnergy((prev) => prev * 0.9 + newEnergy * 0.1);
  setPlaybackProgress((prev) => prev * 0.8 + rawProgress * 0.2);
  const t = performance.now() / 1000; ...
  \<close>
\<close>

definition frameAnimation ::
  "real \<Rightarrow> real \<Rightarrow> real \<Rightarrow> real \<Rightarrow> EmotionState \<Rightarrow> Animation \<Rightarrow> Animation" where
  "frameAnimation normalizedEnergy rawProgress perfNow seed emo a =
     (let smoothedMouth = smoothStep (normalizedEnergy * (18 / 10)) (4 / 10);
          newEnergy = clamp01 normalizedEnergy;
          t = perfNow / 1000;
          headX = sin (t * (13 / 10) + seed) * (15 / 100) * (5 / 10 + newEnergy);
          headY = sin (t * (9 / 10) + seed * (22 / 10)) * (2 / 10) * (4 / 10 + happy emo * (6 / 10));
          headZ = sin (t * (17 / 10) + seed * (14 / 10)) * (8 / 100)
                    * (5 / 10 + surprised emo * (3 / 10));
          blinkSpeed = 6 / 10 + neutral emo * (4 / 10) + (1 - newEnergy) * (5 / 10);
          blinkValue = (sin (t * blinkSpeed + seed * (41 / 10)) + 1) / 2;
          eyeX = sin (t * (7 / 10) + seed * (34 / 10)) * (4 / 10) * (4 / 10 + newEnergy);
          eyeY = sin (t * (5 / 10) + seed * (21 / 10)) * (3 / 10)
                   * (5 / 10 + surprised emo * (4 / 10));
          hand = sin (t * (18 / 10) + seed * (62 / 10)) * (3 / 10 + newEnergy * (5 / 10))
      in \<lparr>mouthOpen = mouthOpen a * (8 / 10) + smoothedMouth * (2 / 10),
          blink = (if blinkValue > 85 / 100 then (blinkValue - 85 / 100) * 6 else 0),
          headRotation =
            (case headRotation a of (x, y, z) \<Rightarrow>
               (x * (8 / 10) + headX * (2 / 10),
                y * (8 / 10) + headY * (2 / 10),
                z * (8 / 10) + headZ * (2 / 10))),
          eyeDirection =
            (case eyeDirection a of (prevX, prevY) \<Rightarrow>
               (prevX * (8 / 10) + eyeX * (2 / 10), prevY * (8 / 10) + eyeY * (2 / 10))),
          handWave = handWave a * (85 / 100) + hand * (15 / 100),
          energy = energy a * (9 / 10) + newEnergy * (1 / 10),
          playbackProgress = playbackProgress a * (8 / 10) + rawProgress * (2 / 10)\<rparr>)"

text \<open>
  One run of \<open>loop\<close>: \<open>now\<close> is \<open>audioContext.currentTime\<close>, \<open>perfNow\<close> is
  \<open>performance.now()\<close>. Nothing happens until the analyser, its data array and a buffer
  are there.
  \<^verbatim>\<open>
  const now = audioContextRef.current?.currentTime ?? 0;
  const elapsed = isPlaying ? now - startTimeRef.current : pauseOffsetRef.current;
  const duration = audioBufferRef.current?.duration ?? 0;
  const rawProgress = duration > 0 ? Math.min(elapsed / duration, 0.999) : 0;
  \<close>
\<close>

definition tick :: "(nat \<Rightarrow> real) list \<Rightarrow> real \<Rightarrow> real \<Rightarrow> Engine \<Rightarrow> Engine" where
  "tick window now perfNow s =
     (case audioBufferRef s of
        None \<Rightarrow> s
      | Some buf \<Rightarrow>
          if \<not> (analyserRef s \<and> dataArrayRef s \<noteq> None) then s
          else
            let dataArray = getFloatTimeDomainData s window;
                rms = rmsOf dataArray;
                peak = updatePeak (peakEnergyRef s) rms;
                normalizedEnergy = normalizedEnergyOf peak rms;
                currentTime = (if audioContextRef s then now else 0);
                elapsed = (if isPlaying s then currentTime - startTimeRef s else pauseOffsetRef s);
                rawProgress =
                  (if duration buf > 0 then min (elapsed / duration buf) (999 / 1000) else 0)
            in s\<lparr>peakEnergyRef := peak,
                 anim := frameAnimation normalizedEnergy rawProgress perfNow (gestureSeed s)
                           (emotions s) (anim s)\<rparr>)"

text \<open>The emotion mix and intensity of the published \<open>animationState\<close>.\<close>

definition emotionMix :: "Engine \<Rightarrow> EmotionState" where
  "emotionMix s = computeEmotionBlend (emotions s) (energy (anim s))"

subsection \<open>Exporting a video\<close>

text \<open>
  What the platform does during one call of \<open>exportVideo\<close>: the clock at the call
  (\<open>clock0\<close>), at the forced playback from offset 0 (\<open>clock1\<close>) and in the restore block
  (\<open>clock2\<close>); the answer of the audio backend at each \<open>ensureAudioContext\<close>;
  \<open>MediaRecorder.isTypeSupported\<close>; whether the recorder reports an error; what
  \<open>convertWebMToMp4\<close> (module \<open>lib/ffmpeg\<close>) settles to. The forced playback ends by the
  \<open>ended\<close> event of its node, which settles \<open>playback.done\<close>. The call runs alone: no
  other call of the hook happens between its steps.
\<close>

record ExportRun =
  clock0 :: real
  clock1 :: real
  clock2 :: real
  backend0 :: backend
  backend1 :: backend
  backend2 :: backend
  typeSupported :: bool
  recorderError :: bool
  converted :: "error + ExportFormat"

definition exportBody ::
  "ExportFormat \<Rightarrow> ExportRun \<Rightarrow> real \<Rightarrow> bool \<Rightarrow> Engine \<Rightarrow> ExportFormat outcome" where
  "exportBody format run previousOffset wasPlaying s0 =
     (let s1 = pause (clock0 run) s0 in
      case ensureAudioContext (backend0 run) s1 of
        (Inl e, s2) \<Rightarrow> (Inl e, s2)
      | (Inr _, s2) \<Rightarrow>
          if \<not> destinationRef s2 then (Inl AudioRoutingUnavailable, s2)
          else if \<not> typeSupported run then (Inl FormatUnsupported, s2)
          else
            (case schedulePlayback (backend1 run) (clock1 run) 0 True s2 of
               (Inl e, s3) \<Rightarrow> (Inl e, s3)
             | (Inr playback, s3) \<Rightarrow>
                 let s4 = (case playback of None \<Rightarrow> s3 | Some source \<Rightarrow> onended source True s3) in
                 if recorderError run then (Inl RecorderFault, s4)
                 else
                   (case (if format = Mp4 then converted run else Inr Webm) of
                      Inl e \<Rightarrow> (Inl e, s4)
                    | Inr finalBlob \<Rightarrow>
                        let s5 = s4\<lparr>statusMessage := Some ''Export complete.''\<rparr> in
                        if wasPlaying then
                          (case schedulePlayback (backend2 run) (clock2 run) previousOffset True
                                  (s5\<lparr>pauseOffsetRef := previousOffset\<rparr>) of
                             (Inl e, s6) \<Rightarrow> (Inl e, s6)
                           | (Inr _, s6) \<Rightarrow> (Inr finalBlob, s6))
                        else (Inr finalBlob, s5\<lparr>pauseOffsetRef := previousOffset, isPlaying := False\<rparr>))))"

definition formatUpper :: "ExportFormat \<Rightarrow> string" where
  "formatUpper format = (case format of Webm \<Rightarrow> ''WEBM'' | Mp4 \<Rightarrow> ''MP4'')"

text \<open>
  \<open>exportVideo(canvas, format)\<close>; \<open>canvas\<close> tells whether the canvas is there. The result
  is the rejection or the container of the final blob, with the state of the engine once
  the promise has settled.
\<close>

definition exportVideo :: "bool \<Rightarrow> ExportFormat \<Rightarrow> ExportRun \<Rightarrow> Engine \<Rightarrow> ExportFormat outcome" where
  "exportVideo canvas format run s =
     (if \<not> canvas then (Inl CanvasNotReady, s)
      else if audioBufferRef s = None then (Inl NoAudioForExport, s)
      else
        let s0 = s\<lparr>isExporting := True,
                   statusMessage := Some (''Rendering '' @ formatUpper format @ ''...'')\<rparr>;
            previousOffset = getCurrentOffset (clock0 run) s0;
            wasPlaying = isPlaying s0
        in (case exportBody format run previousOffset wasPlaying s0 of
              (Inl e, s1) \<Rightarrow>
                (Inl e, s1\<lparr>statusMessage := Some ''Export failed. Please try again.'',
                           isExporting := False\<rparr>)
            | (Inr finalBlob, s1) \<Rightarrow> (Inr finalBlob, s1\<lparr>isExporting := False\<rparr>)))"

subsection \<open>Invariants and example states\<close>

text \<open>Source nodes are numbered as they are created: the current one is among them.\<close>

definition nodesAllocated :: "Engine \<Rightarrow> bool" where
  "nodesAllocated s \<longleftrightarrow> (case sourceNodeRef s of None \<Rightarrow> True | Some k \<Rightarrow> k < nodesCreated s)"

text \<open>
  The analysis tap sits before the gain node: every connection into the analyser comes
  from a buffer source.
\<close>

definition isSource :: "node \<Rightarrow> bool" where
  "isSource n = (case n of SourceN _ \<Rightarrow> True | _ \<Rightarrow> False)"

definition tapBeforeGain :: "Engine \<Rightarrow> bool" where
  "tapBeforeGain s \<longleftrightarrow> list_all (\<lambda>e. snd e = AnalyserN \<longrightarrow> isSource (fst e)) (connections s)"

text \<open>
  Consecutive animation frames: each frame is one call of \<open>loop\<close> with its analyser
  window, audio clock and wall clock.
\<close>

fun runFrames :: "((nat \<Rightarrow> real) list \<times> real \<times> real) list \<Rightarrow> Engine \<Rightarrow> Engine" where
  "runFrames [] s = s"
| "runFrames ((window, now, perfNow) # frames) s = runFrames frames (tick window now perfNow s)"

text \<open>
  A two-second asset, the engine after loading it, after \<open>play()\<close> at clock 0, and after
  a \<open>pause()\<close> at clock 1.
\<close>

definition exampleBuffer :: AudioBuffer where
  "exampleBuffer = \<lparr>bufferId = 1, duration = 2\<rparr>"

definition loadedEngine :: Engine where
  "loadedEngine =
     snd (decodeAudioData BackendReady (\<lambda>_. Inr exampleBuffer) [] (initialEngine 0))"

definition runningEngine :: Engine where
  "runningEngine = snd (play BackendReady 0 0 loadedEngine)"

definition pausedEngine :: Engine where
  "pausedEngine = pause 1 runningEngine"

text \<open>An export that meets no failure, starting at clock 1 and restoring at clock 4.\<close>

definition smoothRun :: ExportRun where
  "smoothRun =
     \<lparr>clock0 = 1, clock1 = 1, clock2 = 4,
      backend0 = BackendReady, backend1 = BackendReady, backend2 = BackendReady,
      typeSupported = True, recorderError = False, converted = Inr Mp4\<rparr>"

text \<open>A file whose bytes can be read, a decoder that rejects, and two animation frames.\<close>

definition brokenFile :: File where
  "brokenFile = \<lparr>fileName = ''talk.mp3'', arrayBuffer = Inr [1, 2, 3]\<rparr>"

definition rejectingDecoder :: "bytes \<Rightarrow> error + AudioBuffer" where
  "rejectingDecoder b = Inl DecodeError"

text \<open>
  The text "hello", and a text of a space, a no-break space and an ideographic space.
\<close>

definition helloText :: jsString where
  "helloText = [0x68, 0x65, 0x6C, 0x6C, 0x6F]"

definition blankText :: jsString where
  "blankText = [0x20, 0xA0, 0x3000]"

text \<open>
  The running transport with a peak tracker that has decayed to \<open>1 / 10 ^ 12\<close>, an analyser
  window of that amplitude, and a window of amplitude one half.
\<close>

definition quietEngine :: Engine where
  "quietEngine = runningEngine\<lparr>peakEnergyRef := 1 / 10 ^ 12\<rparr>"

definition quietWindow :: "(nat \<Rightarrow> real) list" where
  "quietWindow = [\<lambda>i. 1 / 10 ^ 12]"

definition loudWindow :: "(nat \<Rightarrow> real) list" where
  "loudWindow = [\<lambda>i. 1 / 2, \<lambda>i. - (1 / 2)]"

definition exampleFrames :: "((nat \<Rightarrow> real) list \<times> real \<times> real) list" where
  "exampleFrames =
     [([\<lambda>i. 1 / 2, \<lambda>i. - (1 / 2)], 1, 1000), ([\<lambda>i. 1 / 4, \<lambda>i. 1 / 4], 2, 2000)]"

section \<open>Properties of the numeric helpers\<close>

lemma clamp01_bounds: "0 \<le> clamp01 v \<and> clamp01 v \<le> 1"
  by (simp add: clamp01_def)

lemma sumSquares_mono: "acc \<le> sumSquares xs acc"
proof (induction xs arbitrary: acc)
  case Nil
  show ?case by simp
next
  case (Cons x xs)
  have "acc \<le> acc + x * x" by simp
  also have "\<dots> \<le> sumSquares xs (acc + x * x)" by (rule Cons.IH)
  finally show ?case by simp
qed

lemma rmsOf_nonneg: "0 \<le> rmsOf xs"
  unfolding rmsOf_def using sumSquares_mono [of 0 xs] by simp

lemma normalized_bounds:
  assumes "0 \<le> rms"
  shows "0 \<le> normalizedEnergyOf (updatePeak peak rms) rms"
    and "normalizedEnergyOf (updatePeak peak rms) rms \<le> 1"
proof -
  let ?p = "updatePeak peak rms"
  have le: "rms \<le> ?p" by (simp add: updatePeak_def)
  show "0 \<le> normalizedEnergyOf ?p rms"
    using assms le by (simp add: normalizedEnergyOf_def)
  show "normalizedEnergyOf ?p rms \<le> 1"
    using le by (simp add: normalizedEnergyOf_def divide_le_eq_1)
qed

text \<open>
  C8. For every emotion vector with all five components in [0,1] (0 and 1 included) and
  every energy in [0,1], each component of \<open>computeEmotionBlend\<close> lies in [0,1].
\<close>

theorem computeEmotionBlend_clamped:
  assumes "validEmotion m" and "0 \<le> e" and "e \<le> 1"
  shows "validEmotion (computeEmotionBlend m e)"
  by (simp add: validEmotion_def computeEmotionBlend_def clamp01_bounds)

theorem computeEmotionBlend_clamped_witness:
  "validEmotion \<lparr>happy = 1, sad = 0, angry = 1, surprised = 0, neutral = 1\<rparr> \<and>
   (0::real) \<le> 1 \<and> (1::real) \<le> 1 \<and>
   validEmotion (computeEmotionBlend
     \<lparr>happy = 1, sad = 0, angry = 1, surprised = 0, neutral = 1\<rparr> 1)"
proof -
  have v: "validEmotion \<lparr>happy = 1, sad = 0, angry = 1, surprised = 0, neutral = 1\<rparr>"
    by (simp add: validEmotion_def)
  show ?thesis
    using v computeEmotionBlend_clamped [OF v, of 1] by simp
qed

lemma rmsOf_example: "rmsOf [1 / 2, - (1 / 2)] = 1 / 2"
proof -
  have "sqrt (1 / 4) = 1 / 2"
    by (rule real_sqrt_unique) (simp_all add: power2_eq_square)
  then show ?thesis by (simp add: rmsOf_def)
qed

section \<open>Properties of the playback transport\<close>

lemmas engine_defs = initialEngine_def decodeAudioData_def ensureAudioContext_def
  resetPlayback_def stopCurrentSource_def connect_def disconnect_def idleAnimation_def
  schedulePlayback_def play_def pause_def getCurrentOffset_def exampleBuffer_def
  DEFAULT_EMOTIONS_def

lemma loadedEngine_fields:
  "audioBufferRef loadedEngine = Some exampleBuffer" "\<not> isPlaying loadedEngine"
  "audioContextRef loadedEngine" "sourceNodeRef loadedEngine = None"
  "pauseOffsetRef loadedEngine = 0" "nodesCreated loadedEngine = 0"
  "hasAudio loadedEngine" "gainRef loadedEngine = Some 1" "\<not> isExporting loadedEngine"
  "connections loadedEngine = [(GainN, CaptureN), (GainN, SpeakerN), (AnalyserN, GainN)]"
  unfolding loadedEngine_def by (simp_all add: engine_defs Let_def)

lemma runningEngine_fields:
  "audioBufferRef runningEngine = Some exampleBuffer" "isPlaying runningEngine"
  "audioContextRef runningEngine" "sourceNodeRef runningEngine = Some 0"
  "pauseOffsetRef runningEngine = 0" "startTimeRef runningEngine = 0"
  "nodesCreated runningEngine = 1" "\<not> ignoreEndRef runningEngine"
  "gainRef runningEngine = Some 1" "\<not> isExporting runningEngine"
  "connections runningEngine =
     [(SourceN 0, AnalyserN), (GainN, CaptureN), (GainN, SpeakerN), (AnalyserN, GainN)]"
  unfolding runningEngine_def loadedEngine_def by (simp_all add: engine_defs Let_def)

lemma pausedEngine_fields:
  "audioBufferRef pausedEngine = Some exampleBuffer" "\<not> isPlaying pausedEngine"
  "audioContextRef pausedEngine" "sourceNodeRef pausedEngine = None"
  "pauseOffsetRef pausedEngine = 1" "ignoreEndRef pausedEngine"
  "nodesCreated pausedEngine = 1" "\<not> isExporting pausedEngine"
  unfolding pausedEngine_def runningEngine_def loadedEngine_def
  by (simp_all add: engine_defs Let_def)

lemma ensureAudioContext_frame:
  assumes "ensureAudioContext be s = (r, s')"
  shows "audioBufferRef s' = audioBufferRef s" "hasAudio s' = hasAudio s"
    "isPlaying s' = isPlaying s" "sourceNodeRef s' = sourceNodeRef s"
    "pauseOffsetRef s' = pauseOffsetRef s" "startTimeRef s' = startTimeRef s"
    "ignoreEndRef s' = ignoreEndRef s" "nodesCreated s' = nodesCreated s"
    "isExporting s' = isExporting s" "volume s' = volume s"
  using assms
  by (auto simp: ensureAudioContext_def Let_def split: if_splits option.splits)

lemma ensureAudioContext_ok:
  assumes "ensureAudioContext be s = (Inr u, s')"
  shows "audioContextRef s'" "destinationRef s'" "analyserRef s'" "gainRef s' = Some (volume s)"
  using assms
  by (auto simp: ensureAudioContext_def Let_def split: if_splits option.splits)

lemma stopCurrentSource_frame:
  "audioBufferRef (stopCurrentSource s) = audioBufferRef s"
  "hasAudio (stopCurrentSource s) = hasAudio s"
  "isPlaying (stopCurrentSource s) = isPlaying s"
  "pauseOffsetRef (stopCurrentSource s) = pauseOffsetRef s"
  "startTimeRef (stopCurrentSource s) = startTimeRef s"
  "ignoreEndRef (stopCurrentSource s) = ignoreEndRef s"
  "nodesCreated (stopCurrentSource s) = nodesCreated s"
  "isExporting (stopCurrentSource s) = isExporting s"
  "audioContextRef (stopCurrentSource s) = audioContextRef s"
  "sourceNodeRef (stopCurrentSource s) = None"
  by (simp_all add: stopCurrentSource_def split: option.splits)

lemma onended_stale:
  assumes "sourceNodeRef s \<noteq> Some n \<or> ignoreEndRef s"
  shows "onended n markPlaying s = s"
  using assms by (auto simp: onended_def)

lemma pause_running:
  assumes "isPlaying s" and "audioContextRef s" and "audioBufferRef s \<noteq> None"
  shows "ignoreEndRef (pause now s)" "sourceNodeRef (pause now s) = None"
    "\<not> isPlaying (pause now s)" "pauseOffsetRef (pause now s) = getCurrentOffset now s"
  using assms by (auto simp: pause_def Let_def stopCurrentSource_frame)

text \<open>\<open>pause()\<close> on a paused transport returns at its first check and changes nothing.\<close>

lemma pause_paused: "\<not> isPlaying s \<Longrightarrow> pause now s = s"
  by (simp add: pause_def)

lemma schedulePlayback_started:
  assumes "schedulePlayback be now offset markPlaying s = (Inr (Some m), s')"
  shows "m = nodesCreated s" "sourceNodeRef s' = Some m" "nodesCreated s' = Suc m"
    "\<not> ignoreEndRef s'" "audioContextRef s'" "audioBufferRef s' = audioBufferRef s"
    "markPlaying \<longrightarrow> isPlaying s'" "\<not> markPlaying \<longrightarrow> isPlaying s' = isPlaying s"
    "startTimeRef s' = now - pauseOffsetRef s'"
    "\<exists>buf. audioBufferRef s = Some buf \<and>
        pauseOffsetRef s' = min (max offset 0) (max (duration buf - 1 / 1000) 0)"
  using assms
  by (auto simp: schedulePlayback_def Let_def stopCurrentSource_frame
      ensureAudioContext_frame ensureAudioContext_ok
      split: option.splits prod.splits sum.splits if_splits)

text \<open>
  C4. When the \<open>ended\<close> event of the current source node arrives while the transport is
  running and the event is not suppressed (\<open>ignoreEndRef\<close> is false), the handler
  installed by \<open>schedulePlayback\<close> clears the playing flag, sets the stored offset to 0
  and forgets the node, and changes nothing else: the asset stays loaded, so Running
  becomes Paused(0), where \<open>getCurrentOffset\<close> reads 0, with no call of \<open>pause\<close>.
\<close>

theorem natural_end_resets:
  assumes "isPlaying s" and "sourceNodeRef s = Some n" and "\<not> ignoreEndRef s"
  shows "\<not> isPlaying (onended n True s) \<and> pauseOffsetRef (onended n True s) = 0 \<and>
         sourceNodeRef (onended n True s) = None \<and>
         audioBufferRef (onended n True s) = audioBufferRef s \<and>
         hasAudio (onended n True s) = hasAudio s \<and>
         onended n True s = s\<lparr>sourceNodeRef := None, pauseOffsetRef := 0, isPlaying := False\<rparr> \<and>
         (\<forall>buf. audioBufferRef s = Some buf \<and> 0 \<le> duration buf \<longrightarrow>
            getCurrentOffset later (onended n True s) = 0)"
  using assms by (simp add: onended_def getCurrentOffset_def)

theorem natural_end_resets_witness:
  "isPlaying runningEngine \<and> sourceNodeRef runningEngine = Some 0 \<and>
   \<not> ignoreEndRef runningEngine \<and>
   \<not> isPlaying (onended 0 True runningEngine) \<and>
   pauseOffsetRef (onended 0 True runningEngine) = 0 \<and>
   sourceNodeRef (onended 0 True runningEngine) = None \<and>
   audioBufferRef runningEngine = Some exampleBuffer \<and> 0 \<le> duration exampleBuffer \<and>
   audioBufferRef (onended 0 True runningEngine) = Some exampleBuffer \<and>
   getCurrentOffset 5 (onended 0 True runningEngine) = 0"
  using natural_end_resets [of runningEngine 0 5] runningEngine_fields
  by (simp add: exampleBuffer_def getCurrentOffset_def)

text \<open>
  The same from the call that starts the segment: right after a successful
  \<open>schedulePlayback\<close> the transport is running, and the end of the scheduled node pauses
  it at offset 0, where \<open>getCurrentOffset\<close> reads 0 for an asset of positive length.
\<close>

lemma scheduled_segment_ends_paused_at_zero:
  assumes "schedulePlayback be now offset True s = (Inr (Some m), s')"
    and "audioBufferRef s = Some buf" and "0 \<le> duration buf"
  shows "isPlaying s'" and "\<not> isPlaying (onended m True s')"
    and "getCurrentOffset later (onended m True s') = 0"
proof -
  note st = schedulePlayback_started [OF assms(1)]
  show "isPlaying s'" using st(7) by simp
  show "\<not> isPlaying (onended m True s')"
    using st(2,4) by (simp add: onended_def)
  show "getCurrentOffset later (onended m True s') = 0"
    using st(2,4,6) assms(2,3) by (simp add: onended_def getCurrentOffset_def)
qed

text \<open>
  C5. An \<open>ended\<close> event of a node that is not the current one, or that arrives while the
  suppression flag is set, leaves the whole state as it is. After \<open>pause()\<close> on a running
  transport that holds for every node; after a restart by \<open>schedulePlayback\<close> it holds
  for every node created before, and the new segment keeps its playing flag.
\<close>

theorem stale_end_ignored:
  "(sourceNodeRef s \<noteq> Some n \<or> ignoreEndRef s \<longrightarrow> onended n markPlaying s = s) \<and>
   (isPlaying s \<and> audioContextRef s \<and> audioBufferRef s \<noteq> None \<longrightarrow>
      onended n markPlaying (pause now s) = pause now s) \<and>
   (n < nodesCreated s \<and> schedulePlayback be now offset True s = (Inr (Some m), s') \<longrightarrow>
      m \<noteq> n \<and> isPlaying s' \<and> onended n markPlaying s' = s')"
proof (intro conjI impI)
  assume "sourceNodeRef s \<noteq> Some n \<or> ignoreEndRef s"
  then show "onended n markPlaying s = s" by (rule onended_stale)
next
  assume "isPlaying s \<and> audioContextRef s \<and> audioBufferRef s \<noteq> None"
  then have "ignoreEndRef (pause now s)" using pause_running(1) by blast
  then show "onended n markPlaying (pause now s) = pause now s"
    by (simp add: onended_stale)
next
  assume a: "n < nodesCreated s \<and> schedulePlayback be now offset True s = (Inr (Some m), s')"
  then have sp: "schedulePlayback be now offset True s = (Inr (Some m), s')" by simp
  note st = schedulePlayback_started [OF sp]
  from a st(1) show "m \<noteq> n" by simp
  from st(7) show "isPlaying s'" by simp
  from a st(1,2) show "onended n markPlaying s' = s'"
    by (simp add: onended_stale)
qed

theorem stale_end_ignored_witness:
  "isPlaying runningEngine \<and> audioContextRef runningEngine \<and>
   audioBufferRef runningEngine \<noteq> None \<and>
   onended 0 True (pause 1 runningEngine) = pause 1 runningEngine \<and>
   (0::nat) < nodesCreated runningEngine \<and>
   fst (schedulePlayback BackendReady 1 (1 / 2) True runningEngine) = Inr (Some 1) \<and>
   isPlaying (snd (schedulePlayback BackendReady 1 (1 / 2) True runningEngine)) \<and>
   onended 0 True (snd (schedulePlayback BackendReady 1 (1 / 2) True runningEngine)) =
     snd (schedulePlayback BackendReady 1 (1 / 2) True runningEngine)"
proof -
  have r: "fst (schedulePlayback BackendReady 1 (1 / 2) True runningEngine) = Inr (Some 1)"
    unfolding runningEngine_def loadedEngine_def by (simp add: engine_defs Let_def)
  then have e: "schedulePlayback BackendReady 1 (1 / 2) True runningEngine =
      (Inr (Some 1), snd (schedulePlayback BackendReady 1 (1 / 2) True runningEngine))"
    by (simp add: prod_eq_iff)
  show ?thesis
    using stale_end_ignored [where s = runningEngine and n = 0 and markPlaying = True
        and now = 1 and be = BackendReady and offset = "1 / 2" and m = 1
        and s' = "snd (schedulePlayback BackendReady 1 (1 / 2) True runningEngine)"]
      r e runningEngine_fields
    by simp
qed

text \<open>
  C2, on the code. \<open>play()\<close> has no check of the playing flag: called at clock 1 on the
  transport that has been running since clock 0, it schedules a new segment, so the
  source node changes from node 0 to node 1 and the stored offset from 0 to 1.
\<close>

theorem play_while_running_restarts:
  "isPlaying runningEngine \<and> sourceNodeRef runningEngine = Some 0 \<and>
   pauseOffsetRef runningEngine = 0 \<and>
   fst (play BackendReady 1 1 runningEngine) = Inr () \<and>
   isPlaying (snd (play BackendReady 1 1 runningEngine)) \<and>
   sourceNodeRef (snd (play BackendReady 1 1 runningEngine)) = Some 1 \<and>
   pauseOffsetRef (snd (play BackendReady 1 1 runningEngine)) = 1 \<and>
   snd (play BackendReady 1 1 runningEngine) \<noteq> runningEngine"
proof -
  have a: "fst (play BackendReady 1 1 runningEngine) = Inr ()"
    "isPlaying (snd (play BackendReady 1 1 runningEngine))"
    "sourceNodeRef (snd (play BackendReady 1 1 runningEngine)) = Some 1"
    "pauseOffsetRef (snd (play BackendReady 1 1 runningEngine)) = 1"
    unfolding runningEngine_def loadedEngine_def by (simp_all add: engine_defs Let_def)
  have "snd (play BackendReady 1 1 runningEngine) \<noteq> runningEngine"
  proof
    assume "snd (play BackendReady 1 1 runningEngine) = runningEngine"
    then have "pauseOffsetRef (snd (play BackendReady 1 1 runningEngine)) =
        pauseOffsetRef runningEngine" by simp
    with a(4) runningEngine_fields(5) show False by simp
  qed
  with a runningEngine_fields show ?thesis by simp
qed

text \<open>
  In general: whenever \<open>play()\<close> resolves on a transport that has a current source node,
  that node is replaced by the node created by the call.
\<close>

lemma schedulePlayback_allocates:
  assumes "schedulePlayback be now offset markPlaying s = (r, s')" and "nodesAllocated s"
  shows "nodesAllocated s'"
  using assms
  by (auto simp: schedulePlayback_def Let_def nodesAllocated_def stopCurrentSource_frame
      ensureAudioContext_frame split: option.splits prod.splits sum.splits if_splits)

lemma play_replaces_source_node:
  assumes "play be now0 now1 s = (Inr (), s')" and "sourceNodeRef s = Some n"
    and "nodesAllocated s"
  shows "sourceNodeRef s' = Some (nodesCreated s)" and "sourceNodeRef s' \<noteq> sourceNodeRef s"
proof -
  obtain buf where buf: "audioBufferRef s = Some buf"
    using assms(1) by (auto simp: play_def split: option.splits)
  obtain x where x: "schedulePlayback be now1 (getCurrentOffset now0 s) True s = (Inr x, s')"
    using assms(1) buf by (auto simp: play_def split: prod.splits sum.splits)
  have "x \<noteq> None"
  proof
    assume "x = None"
    then have "schedulePlayback be now1 (getCurrentOffset now0 s) True s = (Inr None, s')"
      using x by simp
    then show False using buf by (auto simp: schedulePlayback_def Let_def split: prod.splits sum.splits)
  qed
  then obtain m where m: "x = Some m" by blast
  note st = schedulePlayback_started [OF x [unfolded m]]
  show a: "sourceNodeRef s' = Some (nodesCreated s)" using st(1,2) by simp
  have "n < nodesCreated s" using assms(2,3) by (simp add: nodesAllocated_def)
  then show "sourceNodeRef s' \<noteq> sourceNodeRef s" using a assms(2) by simp
qed

text \<open>
  The offset at which \<open>schedulePlayback\<close> starts a segment lies in [0, duration) for an
  asset of positive length.
\<close>

lemma schedulePlayback_offset_in_range:
  assumes "schedulePlayback be now offset markPlaying s = (Inr (Some m), s')"
    and "audioBufferRef s = Some buf" and "0 < duration buf"
  shows "0 \<le> pauseOffsetRef s'" and "pauseOffsetRef s' < duration buf"
  using schedulePlayback_started(10) [OF assms(1)] assms(2,3)
  by (auto simp: min_def max_def)

section \<open>Properties of the recording session\<close>

text \<open>
  C6. Every call of \<open>exportVideo\<close> that passes its two entry checks (a canvas, a loaded
  buffer) ends with \<open>isExporting\<close> false, whether it resolves or rejects: the
  \<open>finally\<close> block runs on every path.
\<close>

theorem exportVideo_releases_flag:
  assumes "canvas" and "audioBufferRef s \<noteq> None"
  shows "\<not> isExporting (snd (exportVideo canvas format run s))"
  using assms by (auto simp: exportVideo_def Let_def split: prod.splits sum.splits)

lemmas export_defs = exportVideo_def exportBody_def onended_def smoothRun_def formatUpper_def

theorem exportVideo_releases_flag_witness:
  "True \<and> audioBufferRef runningEngine \<noteq> None \<and>
   fst (exportVideo True Mp4 (smoothRun\<lparr>converted := Inl TranscodeError\<rparr>) runningEngine) =
     Inl TranscodeError \<and>
   \<not> isExporting (snd (exportVideo True Mp4 (smoothRun\<lparr>converted := Inl TranscodeError\<rparr>)
       runningEngine))"
proof -
  have "fst (exportVideo True Mp4 (smoothRun\<lparr>converted := Inl TranscodeError\<rparr>) runningEngine) =
     Inl TranscodeError"
    unfolding runningEngine_def loadedEngine_def
    by (simp add: engine_defs export_defs Let_def)
  then show ?thesis
    using exportVideo_releases_flag [of True runningEngine Mp4
        "smoothRun\<lparr>converted := Inl TranscodeError\<rparr>"] runningEngine_fields
    by simp
qed

lemma pause_frame:
  "audioBufferRef (pause now s) = audioBufferRef s"
  "isExporting (pause now s) = isExporting s"
  by (simp_all add: pause_def Let_def stopCurrentSource_frame)

lemma onended_frame:
  "audioBufferRef (onended n mp s) = audioBufferRef s"
  by (simp add: onended_def Let_def)

lemma schedulePlayback_buffer:
  assumes "schedulePlayback be now offset mp s = (r, s')"
  shows "audioBufferRef s' = audioBufferRef s"
  using assms
  by (auto simp: schedulePlayback_def Let_def stopCurrentSource_frame
      ensureAudioContext_frame split: option.splits prod.splits sum.splits if_splits)

lemma schedulePlayback_none:
  assumes "schedulePlayback be now offset mp s = (Inr None, s')"
  shows "audioBufferRef s = None"
  using assms
  by (auto simp: schedulePlayback_def Let_def split: option.splits prod.splits sum.splits if_splits)

lemma clamp_start_close:
  fixes p d :: real
  assumes "0 \<le> p" and "p \<le> d"
  shows "\<bar>min (max p 0) (max (d - 1 / 1000) 0) - p\<bar> \<le> 1 / 1000"
  using assms by (auto simp: min_def max_def)

lemma getCurrentOffset_range:
  assumes "audioBufferRef s = Some buf" and "0 \<le> duration buf" and "isPlaying s"
    and "audioContextRef s"
  shows "getCurrentOffset now s \<le> duration buf" "0 \<le> getCurrentOffset now s"
  using assms by (auto simp: getCurrentOffset_def min_def max_def)

lemma exportBody_resolved:
  assumes "exportBody format run prev wasPlaying s = (Inr blob, s')"
    and "audioBufferRef s = Some buf"
  shows "isPlaying s' = wasPlaying"
    and "wasPlaying \<Longrightarrow> pauseOffsetRef s' = min (max prev 0) (max (duration buf - 1 / 1000) 0)"
    and "\<not> wasPlaying \<Longrightarrow> pauseOffsetRef s' = prev"
    and "wasPlaying \<Longrightarrow> startTimeRef s' = clock2 run - pauseOffsetRef s'"
    and "wasPlaying \<Longrightarrow> audioContextRef s'"
    and "audioBufferRef s' = Some buf"
proof -
  let ?s1 = "pause (clock0 run) s"
  obtain s2 where e0: "ensureAudioContext (backend0 run) ?s1 = (Inr (), s2)"
    using assms(1) by (auto simp: exportBody_def Let_def split: prod.splits sum.splits)
  have b2: "audioBufferRef s2 = Some buf"
    using ensureAudioContext_frame(1) [OF e0] assms(2) by (simp add: pause_frame)
  obtain n s3 where e1: "schedulePlayback (backend1 run) (clock1 run) 0 True s2 = (Inr (Some n), s3)"
    using assms(1) e0 b2 schedulePlayback_none [of "backend1 run" "clock1 run" 0 True s2]
    by (auto simp: exportBody_def Let_def split: prod.splits sum.splits if_splits option.splits)
  let ?s4 = "onended n True s3"
  let ?s5 = "?s4\<lparr>statusMessage := Some ''Export complete.''\<rparr>"
  have b5: "audioBufferRef ?s5 = Some buf"
    using schedulePlayback_buffer [OF e1] b2 by (simp add: onended_frame)
  have p4: "\<not> isPlaying ?s4"
    using schedulePlayback_started(2,4) [OF e1] by (simp add: onended_def)
  show "\<not> wasPlaying \<Longrightarrow> pauseOffsetRef s' = prev"
    using assms(1) e0 e1
    by (auto simp: exportBody_def Let_def split: prod.splits sum.splits if_splits)
  have r: "wasPlaying \<Longrightarrow> \<exists>x. schedulePlayback (backend2 run) (clock2 run) prev True
          (?s5\<lparr>pauseOffsetRef := prev\<rparr>) = (Inr x, s')"
    using assms(1) e0 e1
    by (auto simp: exportBody_def Let_def split: prod.splits sum.splits if_splits)
  have r': "wasPlaying \<Longrightarrow> \<exists>m. schedulePlayback (backend2 run) (clock2 run) prev True
          (?s5\<lparr>pauseOffsetRef := prev\<rparr>) = (Inr (Some m), s')"
  proof -
    assume w: wasPlaying
    from r [OF w] obtain x where x: "schedulePlayback (backend2 run) (clock2 run) prev True
          (?s5\<lparr>pauseOffsetRef := prev\<rparr>) = (Inr x, s')" by blast
    show ?thesis
    proof (cases x)
      case None
      with x schedulePlayback_none [of "backend2 run" "clock2 run" prev True
          "?s5\<lparr>pauseOffsetRef := prev\<rparr>" s'] b5
      show ?thesis by simp
    next
      case (Some m)
      with x show ?thesis by blast
    qed
  qed
  show "isPlaying s' = wasPlaying"
  proof (cases wasPlaying)
    case True
    from r' [OF True] obtain m where m: "schedulePlayback (backend2 run) (clock2 run) prev True
          (?s5\<lparr>pauseOffsetRef := prev\<rparr>) = (Inr (Some m), s')" by blast
    show ?thesis using schedulePlayback_started(7) [OF m] True by simp
  next
    case False
    then show ?thesis
      using assms(1) e0 e1
      by (auto simp: exportBody_def Let_def split: prod.splits sum.splits if_splits)
  qed
  show "wasPlaying \<Longrightarrow> pauseOffsetRef s' = min (max prev 0) (max (duration buf - 1 / 1000) 0)"
  proof -
    assume w: wasPlaying
    from r' [OF w] obtain m where m: "schedulePlayback (backend2 run) (clock2 run) prev True
          (?s5\<lparr>pauseOffsetRef := prev\<rparr>) = (Inr (Some m), s')" by blast
    show ?thesis using schedulePlayback_started(10) [OF m] b5 by simp
  qed
  show "wasPlaying \<Longrightarrow> startTimeRef s' = clock2 run - pauseOffsetRef s'"
  proof -
    assume w: wasPlaying
    from r' [OF w] obtain m where m: "schedulePlayback (backend2 run) (clock2 run) prev True
          (?s5\<lparr>pauseOffsetRef := prev\<rparr>) = (Inr (Some m), s')" by blast
    show ?thesis using schedulePlayback_started(9) [OF m] by simp
  qed
  show "wasPlaying \<Longrightarrow> audioContextRef s'"
  proof -
    assume w: wasPlaying
    from r' [OF w] obtain m where m: "schedulePlayback (backend2 run) (clock2 run) prev True
          (?s5\<lparr>pauseOffsetRef := prev\<rparr>) = (Inr (Some m), s')" by blast
    show ?thesis using schedulePlayback_started(5) [OF m] by simp
  qed
  show "audioBufferRef s' = Some buf"
  proof (cases wasPlaying)
    case True
    from r [OF True] obtain x where x: "schedulePlayback (backend2 run) (clock2 run) prev True
          (?s5\<lparr>pauseOffsetRef := prev\<rparr>) = (Inr x, s')" by blast
    show ?thesis using schedulePlayback_buffer [OF x] b5 by simp
  next
    case False
    then show ?thesis
      using assms(1) e0 e1 b5
      by (auto simp: exportBody_def Let_def split: prod.splits sum.splits if_splits)
  qed
qed


text \<open>
  When \<open>exportVideo\<close> resolves, the playing flag is the one before the call and the
  current offset differs from the one before the call by at most the millisecond that
  \<open>schedulePlayback\<close> keeps clear of the end of the buffer.
\<close>

lemma exportVideo_resolved_restores:
  assumes ex: "exportVideo canvas format run s = (Inr blob, s')"
    and buf: "audioBufferRef s = Some buf" and dur: "0 \<le> duration buf"
    and ctx: "isPlaying s \<longrightarrow> audioContextRef s"
  shows "isPlaying s' = isPlaying s"
    and "\<bar>getCurrentOffset (clock2 run) s' - getCurrentOffset (clock0 run) s\<bar> \<le> 1 / 1000"
proof -
  let ?s0 = "s\<lparr>isExporting := True,
      statusMessage := Some (''Rendering '' @ formatUpper format @ ''...'')\<rparr>"
  let ?prev = "getCurrentOffset (clock0 run) s"
  have prev0: "getCurrentOffset (clock0 run) ?s0 = ?prev"
    by (auto simp: getCurrentOffset_def split: option.splits)
  obtain s1 where body: "exportBody format run ?prev (isPlaying s) ?s0 = (Inr blob, s1)"
    and s': "s' = s1\<lparr>isExporting := False\<rparr>"
    using ex buf prev0
    by (auto simp: exportVideo_def Let_def split: prod.splits sum.splits if_splits)
  have b0: "audioBufferRef ?s0 = Some buf" using buf by simp
  note eb = exportBody_resolved [OF body b0]
  show "isPlaying s' = isPlaying s" using eb(1) s' by simp
  show "\<bar>getCurrentOffset (clock2 run) s' - ?prev\<bar> \<le> 1 / 1000"
  proof (cases "isPlaying s")
    case True
    then have c: "audioContextRef s" using ctx by simp
    have rng: "0 \<le> ?prev" "?prev \<le> duration buf"
      using getCurrentOffset_range [OF buf dur True c] by simp_all
    let ?po = "min (max ?prev 0) (max (duration buf - 1 / 1000) 0)"
    have po: "pauseOffsetRef s1 = ?po" using eb(2) True by simp
    have po_rng: "0 \<le> ?po" "?po \<le> duration buf"
      using rng dur by (auto simp: min_def max_def)
    have "getCurrentOffset (clock2 run) s' = ?po"
      using eb(1,4,5,6) True s' po po_rng by (simp add: getCurrentOffset_def)
    then show ?thesis using clamp_start_close [OF rng] by simp
  next
    case False
    have "?prev = min (pauseOffsetRef s) (duration buf)"
      using False buf by (simp add: getCurrentOffset_def)
    then have le: "?prev \<le> duration buf" by simp
    have "getCurrentOffset (clock2 run) s' = ?prev"
      using eb(1,3,6) False s' le by (simp add: getCurrentOffset_def)
    then show ?thesis by simp
  qed
qed

text \<open>
  C1, on the code. The restore block is the last step of the \<open>try\<close> block; the
  \<open>catch\<close> and \<open>finally\<close> blocks restore nothing. A running transport whose export
  is rejected because the recording format is unsupported stays paused; a transport
  paused at offset 1 whose export is rejected by the transcoder is left at offset 0,
  where the forced playback ended.
\<close>

theorem failed_export_does_not_restore:
  "isPlaying runningEngine \<and>
   fst (exportVideo True Webm (smoothRun\<lparr>typeSupported := False\<rparr>) runningEngine) =
     Inl FormatUnsupported \<and>
   \<not> isPlaying (snd (exportVideo True Webm (smoothRun\<lparr>typeSupported := False\<rparr>) runningEngine)) \<and>
   \<not> isPlaying pausedEngine \<and> pauseOffsetRef pausedEngine = 1 \<and>
   fst (exportVideo True Mp4 (smoothRun\<lparr>converted := Inl TranscodeError\<rparr>) pausedEngine) =
     Inl TranscodeError \<and>
   pauseOffsetRef (snd (exportVideo True Mp4 (smoothRun\<lparr>converted := Inl TranscodeError\<rparr>)
       pausedEngine)) = 0"
proof -
  have a: "fst (exportVideo True Webm (smoothRun\<lparr>typeSupported := False\<rparr>) runningEngine) =
     Inl FormatUnsupported"
    "\<not> isPlaying (snd (exportVideo True Webm (smoothRun\<lparr>typeSupported := False\<rparr>) runningEngine))"
    unfolding runningEngine_def loadedEngine_def
    by (simp_all add: engine_defs export_defs Let_def)
  have b: "fst (exportVideo True Mp4 (smoothRun\<lparr>converted := Inl TranscodeError\<rparr>) pausedEngine) =
     Inl TranscodeError"
   "pauseOffsetRef (snd (exportVideo True Mp4 (smoothRun\<lparr>converted := Inl TranscodeError\<rparr>)
       pausedEngine)) = 0"
    unfolding pausedEngine_def runningEngine_def loadedEngine_def
    by (simp_all add: engine_defs export_defs Let_def)
  from a b runningEngine_fields pausedEngine_fields show ?thesis by simp
qed

text \<open>The same transport, exported with no failure, is running again at offset 1.\<close>

lemma smooth_export_running:
  "fst (exportVideo True Mp4 smoothRun runningEngine) = Inr Mp4"
  "isPlaying (snd (exportVideo True Mp4 smoothRun runningEngine))"
  "pauseOffsetRef (snd (exportVideo True Mp4 smoothRun runningEngine)) = 1"
  "getCurrentOffset 4 (snd (exportVideo True Mp4 smoothRun runningEngine)) = 1"
    unfolding runningEngine_def loadedEngine_def
    by (simp_all add: engine_defs export_defs Let_def)

section \<open>Properties of audio loading\<close>

lemma resetPlayback_frame:
  "audioBufferRef (resetPlayback s) = audioBufferRef s"
  "hasAudio (resetPlayback s) = hasAudio s"
  by (simp_all add: resetPlayback_def stopCurrentSource_frame)

lemma decodeAudioData_rejected:
  assumes "decodeAudioData be decode buffer s = (Inl e, s')"
  shows "audioBufferRef s' = audioBufferRef s" and "hasAudio s' = hasAudio s"
  using assms
  by (auto simp: decodeAudioData_def ensureAudioContext_frame
      split: prod.splits sum.splits)

lemma decodeAudioData_resolved:
  assumes "decodeAudioData be decode buffer s = (Inr u, s')"
  shows "\<exists>decoded. decode buffer = Inr decoded \<and> audioBufferRef s' = Some decoded" and "hasAudio s'"
  using assms
  by (auto simp: decodeAudioData_def resetPlayback_frame split: prod.splits sum.splits)

lemma loadAudioFromFile_rejected:
  assumes "loadAudioFromFile be decode file s = (Inl e, s')"
  shows "\<not> hasAudio s' \<and> audioBufferRef s' = audioBufferRef s"
  using assms
  by (auto simp: loadAudioFromFile_def Let_def dest: decodeAudioData_rejected(1)
      split: prod.splits sum.splits)

lemma loadAudioFromVideo_rejected:
  assumes "loadAudioFromVideo be decode file extracted s = (Inl e, s')"
  shows "\<not> hasAudio s' \<and> audioBufferRef s' = audioBufferRef s"
  using assms
  by (auto simp: loadAudioFromVideo_def Let_def dest: decodeAudioData_rejected(1)
      split: prod.splits sum.splits)

lemma generateSpeechFromText_rejected:
  assumes "generateSpeechFromText be decode phrase voice fetched s = (Inl e, s')"
    and "\<not> trimIsEmpty phrase"
  shows "\<not> hasAudio s' \<and> audioBufferRef s' = audioBufferRef s"
  using assms
  by (auto simp: generateSpeechFromText_def Let_def dest: decodeAudioData_rejected(1)
      split: prod.splits sum.splits if_splits)

text \<open>
  A text that is empty after trimming is rejected before the \<open>try\<close> block: nothing is
  attempted and the whole state, \<open>hasAudio\<close> included, stays as it was.
\<close>

lemma generateSpeechFromText_blank:
  assumes "trimIsEmpty phrase"
  shows "generateSpeechFromText be decode phrase voice fetched s = (Inl TextRequired, s)"
  using assms by (simp add: generateSpeechFromText_def)

lemma loadAudioFromFile_replaces:
  assumes "loadAudioFromFile be decode file s = (r, s')"
    and "audioBufferRef s' \<noteq> audioBufferRef s"
  shows "\<exists>buffer decoded. arrayBuffer file = Inr buffer \<and> decode buffer = Inr decoded \<and>
           audioBufferRef s' = Some decoded \<and> r = Inr ()"
  using assms
  by (auto simp: loadAudioFromFile_def Let_def
      dest: decodeAudioData_rejected(1) decodeAudioData_resolved(1)
      split: prod.splits sum.splits)


text \<open>
  C7, as the code has it. A call of \<open>loadAudioFromFile\<close>, \<open>loadAudioFromVideo\<close> or
  \<open>generateSpeechFromText\<close> with a text that is not blank, when it rejects, whatever the
  step that failed (reading, the request, the extraction, the audio backend, the
  decoder), ends with \<open>hasAudio\<close> false and with \<open>audioBufferRef\<close> as it was. A blank
  text is rejected by the check before the \<open>try\<close> block, and then the whole state,
  \<open>hasAudio\<close> included, is as it was. \<open>decodeAudioData\<close> replaces the buffer only by what
  the decoder has returned, and then resolves.
\<close>

theorem failed_load_keeps_asset:
  "(loadAudioFromFile be decode upload s = (Inl e, sa) \<longrightarrow>
      \<not> hasAudio sa \<and> audioBufferRef sa = audioBufferRef s) \<and>
   (\<not> trimIsEmpty phrase \<and> generateSpeechFromText be decode phrase voice fetched s = (Inl e, sb) \<longrightarrow>
      \<not> hasAudio sb \<and> audioBufferRef sb = audioBufferRef s) \<and>
   (trimIsEmpty phrase \<longrightarrow>
      generateSpeechFromText be decode phrase voice fetched s = (Inl TextRequired, s)) \<and>
   (loadAudioFromVideo be decode upload extracted s = (Inl e, sc) \<longrightarrow>
      \<not> hasAudio sc \<and> audioBufferRef sc = audioBufferRef s) \<and>
   (decodeAudioData be decode buffer s = (r, sd) \<and> audioBufferRef sd \<noteq> audioBufferRef s \<longrightarrow>
      (\<exists>decoded. decode buffer = Inr decoded \<and> audioBufferRef sd = Some decoded \<and> r = Inr ()))"
proof (intro conjI impI)
  assume "loadAudioFromFile be decode upload s = (Inl e, sa)"
  then show "\<not> hasAudio sa" "audioBufferRef sa = audioBufferRef s"
    using loadAudioFromFile_rejected by blast+
next
  assume "\<not> trimIsEmpty phrase \<and> generateSpeechFromText be decode phrase voice fetched s = (Inl e, sb)"
  then show "\<not> hasAudio sb" "audioBufferRef sb = audioBufferRef s"
    using generateSpeechFromText_rejected by blast+
next
  assume "trimIsEmpty phrase"
  then show "generateSpeechFromText be decode phrase voice fetched s = (Inl TextRequired, s)"
    by (rule generateSpeechFromText_blank)
next
  assume "loadAudioFromVideo be decode upload extracted s = (Inl e, sc)"
  then show "\<not> hasAudio sc" "audioBufferRef sc = audioBufferRef s"
    using loadAudioFromVideo_rejected by blast+
next
  assume a: "decodeAudioData be decode buffer s = (r, sd) \<and> audioBufferRef sd \<noteq> audioBufferRef s"
  show "\<exists>decoded. decode buffer = Inr decoded \<and> audioBufferRef sd = Some decoded \<and> r = Inr ()"
  proof (cases r)
    case (Inl err)
    with a decodeAudioData_rejected(1) [of be decode buffer s err sd] show ?thesis by simp
  next
    case (Inr u)
    with a decodeAudioData_resolved(1) [of be decode buffer s u sd] show ?thesis by simp
  qed
qed

lemmas load_defs = loadAudioFromFile_def loadAudioFromVideo_def generateSpeechFromText_def
  brokenFile_def rejectingDecoder_def trimIsEmpty_def isWhiteSpace_def helloText_def
  blankText_def

theorem failed_load_keeps_asset_witness:
  "hasAudio loadedEngine \<and> audioBufferRef loadedEngine = Some exampleBuffer \<and>
   fst (loadAudioFromFile BackendReady rejectingDecoder brokenFile loadedEngine) = Inl DecodeError \<and>
   \<not> hasAudio (snd (loadAudioFromFile BackendReady rejectingDecoder brokenFile loadedEngine)) \<and>
   audioBufferRef (snd (loadAudioFromFile BackendReady rejectingDecoder brokenFile loadedEngine)) =
     Some exampleBuffer \<and>
   \<not> trimIsEmpty helloText \<and>
   fst (generateSpeechFromText BackendReady rejectingDecoder helloText ''en-US''
          (Inl NetworkError) loadedEngine) = Inl NetworkError \<and>
   \<not> hasAudio (snd (generateSpeechFromText BackendReady rejectingDecoder helloText ''en-US''
          (Inl NetworkError) loadedEngine)) \<and>
   audioBufferRef (snd (generateSpeechFromText BackendReady rejectingDecoder helloText ''en-US''
          (Inl NetworkError) loadedEngine)) = Some exampleBuffer \<and>
   fst (loadAudioFromVideo BackendReady rejectingDecoder brokenFile (Inl ExtractionError)
          loadedEngine) = Inl ExtractionError \<and>
   \<not> hasAudio (snd (loadAudioFromVideo BackendReady rejectingDecoder brokenFile
          (Inl ExtractionError) loadedEngine)) \<and>
   audioBufferRef (snd (loadAudioFromVideo BackendReady rejectingDecoder brokenFile
          (Inl ExtractionError) loadedEngine)) = Some exampleBuffer \<and>
   trimIsEmpty blankText \<and>
   generateSpeechFromText BackendReady rejectingDecoder blankText ''en-US''
     (Inl NetworkError) loadedEngine = (Inl TextRequired, loadedEngine)"
proof -
  let ?f = "loadAudioFromFile BackendReady rejectingDecoder brokenFile loadedEngine"
  let ?g = "generateSpeechFromText BackendReady rejectingDecoder helloText ''en-US''
          (Inl NetworkError) loadedEngine"
  let ?v = "loadAudioFromVideo BackendReady rejectingDecoder brokenFile (Inl ExtractionError)
          loadedEngine"
  have f: "fst ?f = Inl DecodeError"
    unfolding loadedEngine_def by (simp add: engine_defs load_defs Let_def)
  have t: "\<not> trimIsEmpty helloText"
    by (simp add: trimIsEmpty_def isWhiteSpace_def helloText_def)
  have g: "fst ?g = Inl NetworkError"
    unfolding loadedEngine_def by (simp add: engine_defs load_defs Let_def)
  have v: "fst ?v = Inl ExtractionError"
    unfolding loadedEngine_def by (simp add: engine_defs load_defs Let_def)
  have ef: "?f = (Inl DecodeError, snd ?f)" using f by (simp add: prod_eq_iff)
  have eg: "?g = (Inl NetworkError, snd ?g)" using g by (simp add: prod_eq_iff)
  have ev: "?v = (Inl ExtractionError, snd ?v)" using v by (simp add: prod_eq_iff)
  have 1: "\<not> hasAudio (snd ?f) \<and> audioBufferRef (snd ?f) = audioBufferRef loadedEngine"
    using failed_load_keeps_asset [where be = BackendReady and decode = rejectingDecoder
        and upload = brokenFile and s = loadedEngine and e = DecodeError and sa = "snd ?f"] ef
    by blast
  have 2: "\<not> hasAudio (snd ?g) \<and> audioBufferRef (snd ?g) = audioBufferRef loadedEngine"
    using failed_load_keeps_asset [where be = BackendReady and decode = rejectingDecoder
        and phrase = helloText and voice = "''en-US''" and fetched = "Inl NetworkError"
        and s = loadedEngine and e = NetworkError and sb = "snd ?g"] eg t
    by blast
  have 3: "\<not> hasAudio (snd ?v) \<and> audioBufferRef (snd ?v) = audioBufferRef loadedEngine"
    using failed_load_keeps_asset [where be = BackendReady and decode = rejectingDecoder
        and upload = brokenFile and extracted = "Inl ExtractionError"
        and s = loadedEngine and e = ExtractionError and sc = "snd ?v"] ev
    by blast
  have bl: "trimIsEmpty blankText"
    by (simp add: trimIsEmpty_def isWhiteSpace_def blankText_def)
  have 4: "generateSpeechFromText BackendReady rejectingDecoder blankText ''en-US''
     (Inl NetworkError) loadedEngine = (Inl TextRequired, loadedEngine)"
    using failed_load_keeps_asset [where be = BackendReady and decode = rejectingDecoder
        and phrase = blankText and voice = "''en-US''" and fetched = "Inl NetworkError"
        and s = loadedEngine] bl
    by blast
  from f g v t 1 2 3 4 bl loadedEngine_fields(1,7) show ?thesis by simp
qed

text \<open>
  C7, as the spec states it, fails on the code: with an asset loaded and \<open>hasAudio\<close>
  true, a synthesize call with a text of white space only (here a space, a no-break
  space and an ideographic space) rejects and leaves \<open>hasAudio\<close> true.
\<close>

theorem blank_text_keeps_hasAudio:
  "hasAudio loadedEngine \<and>
   fst (generateSpeechFromText BackendReady rejectingDecoder blankText ''en-US''
          (Inl NetworkError) loadedEngine) = Inl TextRequired \<and>
   hasAudio (snd (generateSpeechFromText BackendReady rejectingDecoder blankText ''en-US''
          (Inl NetworkError) loadedEngine))"
proof -
  have "trimIsEmpty blankText"
    by (simp add: trimIsEmpty_def isWhiteSpace_def blankText_def)
  then have "generateSpeechFromText BackendReady rejectingDecoder blankText ''en-US''
     (Inl NetworkError) loadedEngine = (Inl TextRequired, loadedEngine)"
    by (rule generateSpeechFromText_blank)
  then show ?thesis using loadedEngine_fields(7) by simp
qed


section \<open>Properties of the volume control and the analysis tap\<close>

lemma nodeOutput_source: "nodeOutput k es g src (SourceN i) = (if k = 0 then 0 else src i)"
  by (cases k) simp_all

lemma nodeOutput_tap:
  assumes "list_all (\<lambda>e. snd e = AnalyserN \<longrightarrow> isSource (fst e)) es"
  shows "nodeOutput k es g src AnalyserN = nodeOutput k es g' src AnalyserN"
proof (cases k)
  case 0
  then show ?thesis by simp
next
  case (Suc j)
  have "map (\<lambda>e. nodeOutput j es g src (fst e)) (filter (\<lambda>e. snd e = AnalyserN) es) =
        map (\<lambda>e. nodeOutput j es g' src (fst e)) (filter (\<lambda>e. snd e = AnalyserN) es)"
  proof (rule map_cong [OF refl])
    fix e
    assume "e \<in> set (filter (\<lambda>e. snd e = AnalyserN) es)"
    then have "isSource (fst e)"
      using assms by (auto simp: list_all_iff)
    then obtain i where "fst e = SourceN i"
      by (cases "fst e") (simp_all add: isSource_def)
    then show "nodeOutput j es g src (fst e) = nodeOutput j es g' src (fst e)"
      by (simp add: nodeOutput_source)
  qed
  then have "sum_list (map (\<lambda>e. nodeOutput j es g src (fst e)) (filter (\<lambda>e. snd e = AnalyserN) es)) =
        sum_list (map (\<lambda>e. nodeOutput j es g' src (fst e)) (filter (\<lambda>e. snd e = AnalyserN) es))"
    by (rule arg_cong)
  then show ?thesis unfolding Suc by (simp only: nodeOutput.simps node.case)
qed

lemma tap_ignores_gain:
  assumes "tapBeforeGain s"
  shows "getFloatTimeDomainData (s\<lparr>volume := a, gainRef := g\<rparr>) window =
         getFloatTimeDomainData s window"
proof -
  have "signalAt (s\<lparr>volume := a, gainRef := g\<rparr>) src AnalyserN = signalAt s src AnalyserN" for src
    unfolding signalAt_def
    using nodeOutput_tap [OF assms [unfolded tapBeforeGain_def]]
    by (simp del: nodeOutput.simps)
  then show ?thesis by (simp add: getFloatTimeDomainData_def)
qed

lemma tick_ignores_gain:
  assumes "tapBeforeGain s"
  shows "tick window now perfNow (s\<lparr>volume := a, gainRef := g\<rparr>) =
         (tick window now perfNow s)\<lparr>volume := a, gainRef := g\<rparr>"
proof (cases "audioBufferRef s")
  case None
  then show ?thesis by (simp add: tick_def)
next
  case (Some buf)
  note d = tap_ignores_gain [OF assms, where a = a and g = g and window = window]
  show ?thesis
  proof (cases "analyserRef s \<and> dataArrayRef s \<noteq> None")
    case False
    with Some show ?thesis by (simp add: tick_def)
  next
    case True
    with Some d show ?thesis
      by (simp add: tick_def Let_def split del: if_split cong: if_cong)
  qed
qed

lemma updateVolume_eq:
  "updateVolume v s = s\<lparr>volume := clamp01 v,
      gainRef := (case gainRef s of None \<Rightarrow> None | Some _ \<Rightarrow> Some (clamp01 v))\<rparr>"
  by (simp add: updateVolume_def Let_def split: option.splits)

lemma tick_frame:
  "connections (tick window now perfNow s) = connections s"
  "gainRef (tick window now perfNow s) = gainRef s"
  "volume (tick window now perfNow s) = volume s"
  by (simp_all add: tick_def Let_def split: option.splits)

lemma tick_updateVolume:
  assumes "tapBeforeGain s"
  shows "tick window now perfNow (updateVolume v s) = updateVolume v (tick window now perfNow s)"
  by (simp add: updateVolume_eq tick_ignores_gain [OF assms] tick_frame)

lemma tick_tap: "tapBeforeGain s \<Longrightarrow> tapBeforeGain (tick window now perfNow s)"
  by (simp add: tapBeforeGain_def tick_frame)

lemma runFrames_updateVolume:
  assumes "tapBeforeGain s"
  shows "runFrames frames (updateVolume v s) = updateVolume v (runFrames frames s)"
  using assms
proof (induction frames arbitrary: s)
  case Nil
  show ?case by simp
next
  case (Cons f frames)
  obtain window now perfNow where f: "f = (window, now, perfNow)" by (cases f)
  show ?case
    using Cons.IH [OF tick_tap [OF Cons.prems]] tick_updateVolume [OF Cons.prems]
    by (simp add: f)
qed

lemma updateVolume_frame:
  "anim (updateVolume v s) = anim s" "peakEnergyRef (updateVolume v s) = peakEnergyRef s"
  "emotions (updateVolume v s) = emotions s" "connections (updateVolume v s) = connections s"
  by (simp_all add: updateVolume_eq)

lemma tap_initial: "tapBeforeGain (initialEngine seed)"
  by (simp add: tapBeforeGain_def initialEngine_def)

lemma tap_ensureAudioContext:
  assumes "tapBeforeGain s" and "ensureAudioContext be s = (r, s')"
  shows "tapBeforeGain s'"
  using assms
  by (auto simp: tapBeforeGain_def ensureAudioContext_def Let_def connect_def isSource_def
      list_all_iff split: if_splits option.splits)

lemma tap_stopCurrentSource: "tapBeforeGain s \<Longrightarrow> tapBeforeGain (stopCurrentSource s)"
  by (auto simp: tapBeforeGain_def stopCurrentSource_def disconnect_def list_all_iff
      split: option.splits)

lemma tap_schedulePlayback:
  assumes "tapBeforeGain s" and "schedulePlayback be now offset mp s = (r, s')"
  shows "tapBeforeGain s'"
proof (cases "audioBufferRef s")
  case None
  with assms show ?thesis by (simp add: schedulePlayback_def)
next
  case (Some buf)
  obtain r1 s1 where e: "ensureAudioContext be s = (r1, s1)" by (cases "ensureAudioContext be s")
  have t1: "tapBeforeGain (stopCurrentSource s1)"
    using tap_stopCurrentSource tap_ensureAudioContext [OF assms(1) e] by blast
  show ?thesis
  proof (cases r1)
    case (Inl err)
    with assms(2) Some e tap_ensureAudioContext [OF assms(1) e] show ?thesis
      by (auto simp: schedulePlayback_def)
  next
    case (Inr u)
    with assms(2) Some e t1 show ?thesis
      by (auto simp: schedulePlayback_def Let_def tapBeforeGain_def connect_def isSource_def
          list_all_iff split: if_splits)
  qed
qed

lemma tap_pause: "tapBeforeGain s \<Longrightarrow> tapBeforeGain (pause now s)"
  using tap_stopCurrentSource [of "s\<lparr>pauseOffsetRef := getCurrentOffset now s, ignoreEndRef := True\<rparr>"]
  by (simp add: pause_def Let_def tapBeforeGain_def)

lemma tap_onended: "tapBeforeGain s \<Longrightarrow> tapBeforeGain (onended n mp s)"
  by (simp add: onended_def Let_def tapBeforeGain_def)


lemma tap_running: "tapBeforeGain runningEngine"
  by (simp add: tapBeforeGain_def runningEngine_fields isSource_def)

text \<open>
  C10. \<open>updateVolume\<close> stores the clamped value, which lies in [0,1], and writes it to
  the gain node when there is one. In a graph whose analyser is fed by buffer sources
  only, any number of animation frames computes the same animation values, peak energy
  and emotion mix whatever the volume: the window the analyser reads does not depend on
  the gain.
\<close>

theorem volume_noninterference:
  assumes "tapBeforeGain s"
  shows "volume (updateVolume v s) = clamp01 v \<and>
         0 \<le> volume (updateVolume v s) \<and> volume (updateVolume v s) \<le> 1 \<and>
         (gainRef s \<noteq> None \<longrightarrow> gainRef (updateVolume v s) = Some (clamp01 v)) \<and>
         anim (runFrames frames (updateVolume v s)) = anim (runFrames frames (updateVolume v' s)) \<and>
         peakEnergyRef (runFrames frames (updateVolume v s)) =
           peakEnergyRef (runFrames frames (updateVolume v' s)) \<and>
         emotionMix (runFrames frames (updateVolume v s)) =
           emotionMix (runFrames frames (updateVolume v' s))"
proof -
  have a: "volume (updateVolume v s) = clamp01 v" by (simp add: updateVolume_eq)
  have b: "gainRef s \<noteq> None \<longrightarrow> gainRef (updateVolume v s) = Some (clamp01 v)"
    by (auto simp: updateVolume_eq)
  have c: "runFrames frames (updateVolume w s) = updateVolume w (runFrames frames s)" for w
    by (rule runFrames_updateVolume [OF assms])
  from a b clamp01_bounds [of v] show ?thesis
    by (simp add: c updateVolume_frame emotionMix_def)
qed


theorem volume_noninterference_witness:
  "tapBeforeGain runningEngine \<and>
   volume (updateVolume 0 runningEngine) = 0 \<and>
   gainRef (updateVolume 0 runningEngine) = Some 0 \<and>
   gainRef (updateVolume 1 runningEngine) = Some 1 \<and>
   anim (runFrames exampleFrames (updateVolume 0 runningEngine)) =
     anim (runFrames exampleFrames (updateVolume 1 runningEngine)) \<and>
   peakEnergyRef (runFrames exampleFrames (updateVolume 0 runningEngine)) =
     peakEnergyRef (runFrames exampleFrames (updateVolume 1 runningEngine))"
  using volume_noninterference [OF tap_running, where v = 0 and v' = 1 and frames = exampleFrames]
    tap_running runningEngine_fields(9)
  by (simp add: clamp01_def updateVolume_eq)

text \<open>
  In the graph of the running transport the analyser reads the sample of the source
  whatever the volume, while speaker and capture sink get it multiplied by the gain:
  volume 0 silences the output and leaves the analysed signal as it is.
\<close>

lemma running_signals:
  "signalAt (updateVolume v runningEngine) src AnalyserN = src 0"
  "signalAt (updateVolume v runningEngine) src SpeakerN = clamp01 v * src 0"
  "signalAt (updateVolume v runningEngine) src CaptureN = clamp01 v * src 0"
  by (simp_all add: signalAt_def gainValue_def updateVolume_eq runningEngine_fields)


section \<open>Properties of the feature extraction in the loop\<close>

lemma runningEngine_loop_fields:
  "analyserRef runningEngine" "dataArrayRef runningEngine = Some 1024"
  "peakEnergyRef runningEngine = 1 / 10000" "energy (anim runningEngine) = 0"
  "mouthOpen (anim runningEngine) = 0"
  unfolding runningEngine_def loadedEngine_def by (simp_all add: engine_defs Let_def)

lemma quietEngine_fields:
  "audioBufferRef quietEngine = Some exampleBuffer" "analyserRef quietEngine"
  "dataArrayRef quietEngine = Some 1024" "peakEnergyRef quietEngine = 1 / 10 ^ 12"
  "energy (anim quietEngine) = 0" "connections quietEngine = connections runningEngine"
  by (simp_all add: quietEngine_def runningEngine_fields runningEngine_loop_fields)

text \<open>In the graph of the running transport the analyser window is the window of source 0.\<close>

lemma tap_reads_source:
  assumes "connections s = connections runningEngine"
  shows "getFloatTimeDomainData s window = map (\<lambda>src. src 0) window"
  using assms by (simp add: getFloatTimeDomainData_def signalAt_def runningEngine_fields(11))

lemma rmsOf_single: "0 \<le> x \<Longrightarrow> rmsOf [x] = x"
  by (simp add: rmsOf_def)

lemma frameAnimation_energy:
  "energy (frameAnimation e rawProgress perfNow seed emo a) =
     energy a * (9 / 10) + clamp01 e * (1 / 10)"
  "mouthOpen (frameAnimation e rawProgress perfNow seed emo a) =
     mouthOpen a * (8 / 10) + smoothStep (e * (18 / 10)) (4 / 10) * (2 / 10)"
  by (simp_all add: frameAnimation_def Let_def)

text \<open>What one run of the loop stores, once analyser, data array and buffer are there.\<close>

lemma tick_runs:
  assumes "audioBufferRef s = Some buf" and "analyserRef s" and "dataArrayRef s = Some k"
  shows "peakEnergyRef (tick window now perfNow s) =
           updatePeak (peakEnergyRef s) (rmsOf (getFloatTimeDomainData s window))"
    and "energy (anim (tick window now perfNow s)) =
           energy (anim s) * (9 / 10) +
           clamp01 (normalizedEnergyOf
             (updatePeak (peakEnergyRef s) (rmsOf (getFloatTimeDomainData s window)))
             (rmsOf (getFloatTimeDomainData s window))) * (1 / 10)"
    and "mouthOpen (anim (tick window now perfNow s)) =
           mouthOpen (anim s) * (8 / 10) +
           smoothStep (normalizedEnergyOf
             (updatePeak (peakEnergyRef s) (rmsOf (getFloatTimeDomainData s window)))
             (rmsOf (getFloatTimeDomainData s window)) * (18 / 10)) (4 / 10) * (2 / 10)"
  using assms
  by (simp_all add: tick_def Let_def frameAnimation_energy split del: if_split cong: if_cong)

text \<open>
  There is no floor under the peak: a silent window multiplies it by 0.995, frame after
  frame.
\<close>

lemma silent_tick_decays:
  assumes "audioBufferRef s = Some buf" and "analyserRef s" and "dataArrayRef s = Some k"
    and "rmsOf (getFloatTimeDomainData s window) = 0" and "0 \<le> peakEnergyRef s"
  shows "peakEnergyRef (tick window now perfNow s) = peakEnergyRef s * (995 / 1000)"
  using tick_runs(1) [OF assms(1,2,3), of window now perfNow] assms(4,5)
  by (simp add: updatePeak_def decayFactor_def)

lemma tick_loop_frame:
  "audioBufferRef (tick window now perfNow s) = audioBufferRef s"
  "analyserRef (tick window now perfNow s) = analyserRef s"
  "dataArrayRef (tick window now perfNow s) = dataArrayRef s"
  by (simp_all add: tick_def Let_def split: option.splits)

text \<open>
  So on the running transport \<open>n\<close> silent frames leave the peak at its start value times
  \<open>0.995 ^ n\<close>, which falls below every positive bound.
\<close>

lemma silent_frames_decay:
  assumes "audioBufferRef s = Some buf" and "analyserRef s" and "dataArrayRef s = Some k"
    and "connections s = connections runningEngine" and "0 \<le> peakEnergyRef s"
  shows "peakEnergyRef (runFrames (replicate n ([\<lambda>i. 0], now, perfNow)) s) =
           peakEnergyRef s * (995 / 1000) ^ n"
  using assms
proof (induction n arbitrary: s)
  case 0
  show ?case by simp
next
  case (Suc n)
  let ?s' = "tick [\<lambda>i. 0] now perfNow s"
  have z: "rmsOf (getFloatTimeDomainData s [\<lambda>i. 0]) = 0"
    using tap_reads_source [OF Suc.prems(4), of "[\<lambda>i. 0]"] by (simp add: rmsOf_single)
  have p: "peakEnergyRef ?s' = peakEnergyRef s * (995 / 1000)"
    by (rule silent_tick_decays [OF Suc.prems(1,2,3) z Suc.prems(5)])
  have nn: "0 \<le> peakEnergyRef ?s'" using p Suc.prems(5) by simp
  have "peakEnergyRef (runFrames (replicate n ([\<lambda>i. 0], now, perfNow)) ?s') =
      peakEnergyRef ?s' * (995 / 1000) ^ n"
    using Suc.IH [of ?s'] Suc.prems nn by (simp add: tick_loop_frame tick_frame(1))
  then show ?case by (simp add: p)
qed

text \<open>
  C9, as the spec states it, fails on the code: the division is not guarded against a
  near-zero peak. With the peak tracker at \<open>1 / 10 ^ 12\<close> and a window of that amplitude, the
  loop divides by the peak and takes the raw energy 1, so the smoothed energy goes from 0
  to one tenth.
\<close>

theorem near_zero_peak_is_divided:
  "peakEnergyRef quietEngine = 1 / 10 ^ 12 \<and>
   rmsOf (getFloatTimeDomainData quietEngine quietWindow) = 1 / 10 ^ 12 \<and>
   peakEnergyRef (tick quietWindow 1 1000 quietEngine) = 1 / 10 ^ 12 \<and>
   normalizedEnergyOf (1 / 10 ^ 12) (1 / 10 ^ 12) = 1 \<and>
   energy (anim quietEngine) = 0 \<and>
   energy (anim (tick quietWindow 1 1000 quietEngine)) = 1 / 10"
proof -
  have d: "getFloatTimeDomainData quietEngine quietWindow = [1 / 10 ^ 12]"
    using tap_reads_source [OF quietEngine_fields(6), of quietWindow]
    by (simp add: quietWindow_def)
  have r: "rmsOf (getFloatTimeDomainData quietEngine quietWindow) = 1 / 10 ^ 12"
    unfolding d by (rule rmsOf_single) simp
  have n: "normalizedEnergyOf (1 / 10 ^ 12) (1 / 10 ^ 12) = 1"
    by (simp add: normalizedEnergyOf_def)
  have u: "updatePeak (1 / 10 ^ 12) (1 / 10 ^ 12) = 1 / 10 ^ 12"
    by (simp add: updatePeak_def decayFactor_def)
  note t = tick_runs(1,2) [OF quietEngine_fields(1,2,3), of quietWindow 1 1000]
  have p: "peakEnergyRef (tick quietWindow 1 1000 quietEngine) = 1 / 10 ^ 12"
    using t(1) [unfolded r quietEngine_fields(4) u] .
  have "energy (anim (tick quietWindow 1 1000 quietEngine)) =
      energy (anim quietEngine) * (9 / 10) + clamp01 1 * (1 / 10)"
    using t(2) [unfolded r quietEngine_fields(4) u n] .
  then have e: "energy (anim (tick quietWindow 1 1000 quietEngine)) = 1 / 10"
    by (simp add: quietEngine_fields(5) clamp01_def)
  from r n p e quietEngine_fields(4,5) show ?thesis by simp
qed

text \<open>
  C9, as the code has it. In every run of the loop that finds analyser, data array and
  buffer, the peak tracker becomes \<open>max (peak * 0.995) rms\<close>, which is at least the rms;
  the raw energy of the tick is the quotient \<open>rms / peak\<close> whenever the updated peak is
  positive, however small, and 0 otherwise (the only guard is \<open>peak > 0\<close>; there is no
  floor); it lies in [0,1], and it is this value that is smoothed into \<open>energy\<close> and
  \<open>mouthOpen\<close>.
\<close>

theorem tick_normalization_safe:
  assumes "audioBufferRef s \<noteq> None" and "analyserRef s" and "dataArrayRef s \<noteq> None"
    and "window \<noteq> []"
  shows "let rms = rmsOf (getFloatTimeDomainData s window);
             peak = max (peakEnergyRef s * (995 / 1000)) rms;
             e = (if peak > 0 then rms / peak else 0)
         in peakEnergyRef (tick window now perfNow s) = peak \<and> rms \<le> peak \<and>
            0 \<le> e \<and> e \<le> 1 \<and>
            energy (anim (tick window now perfNow s)) = energy (anim s) * (9 / 10) + e * (1 / 10) \<and>
            mouthOpen (anim (tick window now perfNow s)) =
              mouthOpen (anim s) * (8 / 10) + smoothStep (e * (18 / 10)) (4 / 10) * (2 / 10)"
proof -
  obtain buf k where b: "audioBufferRef s = Some buf" and k: "dataArrayRef s = Some k"
    using assms(1,3) by auto
  let ?rms = "rmsOf (getFloatTimeDomainData s window)"
  let ?peak = "max (peakEnergyRef s * (995 / 1000)) ?rms"
  let ?e = "if ?peak > 0 then ?rms / ?peak else 0"
  have up: "updatePeak (peakEnergyRef s) ?rms = ?peak"
    by (simp add: updatePeak_def decayFactor_def)
  have ne: "normalizedEnergyOf ?peak ?rms = ?e"
    by (simp add: normalizedEnergyOf_def)
  note t = tick_runs [OF b assms(2) k, of window now perfNow, unfolded up ne]
  have le: "?rms \<le> ?peak" by simp
  have rng: "0 \<le> ?e" "?e \<le> 1"
    using normalized_bounds [OF rmsOf_nonneg, of "peakEnergyRef s" "getFloatTimeDomainData s window"]
    unfolding up ne by simp_all
  have cl: "clamp01 ?e = ?e" using rng by (simp add: clamp01_def)
  have en: "energy (anim (tick window now perfNow s)) = energy (anim s) * (9 / 10) + ?e * (1 / 10)"
    using t(2) cl by simp
  show ?thesis
    unfolding Let_def using t(1) le rng en t(3) by blast
qed

theorem tick_normalization_safe_witness:
  "audioBufferRef runningEngine \<noteq> None \<and> analyserRef runningEngine \<and>
   dataArrayRef runningEngine \<noteq> None \<and> loudWindow \<noteq> [] \<and>
   rmsOf (getFloatTimeDomainData runningEngine loudWindow) = 1 / 2 \<and>
   peakEnergyRef runningEngine = 1 / 10000 \<and>
   peakEnergyRef (tick loudWindow 1 1000 runningEngine) = 1 / 2 \<and>
   energy (anim (tick loudWindow 1 1000 runningEngine)) = 1 / 10"
proof -
  have h: "audioBufferRef runningEngine \<noteq> None" "analyserRef runningEngine"
    "dataArrayRef runningEngine \<noteq> None" "loudWindow \<noteq> []"
    by (simp_all add: runningEngine_fields runningEngine_loop_fields loudWindow_def)
  have d: "getFloatTimeDomainData runningEngine loudWindow = [1 / 2, - (1 / 2)]"
    using tap_reads_source [OF refl, of loudWindow] by (simp add: loudWindow_def)
  have r: "rmsOf (getFloatTimeDomainData runningEngine loudWindow) = 1 / 2"
    unfolding d by (rule rmsOf_example)
  show ?thesis
    using tick_normalization_safe [OF h, of 1 1000] h r
    by (simp add: Let_def runningEngine_loop_fields)
qed

end
